theory Spec2Isabelle
  imports Complex_Main
begin

section \<open>Preliminaries: failures, vectors and string-keyed maps\<close>

text \<open>
  The solver is templated over a numeric type \<open>T\<close>; it is instantiated here with the
  real numbers, so \<open>std::sqrt\<close>, \<open>std::exp\<close> and \<open>std::acos\<close> are \<^const>\<open>sqrt\<close>,
  \<^const>\<open>exp\<close> and \<^const>\<open>arccos\<close>, and \<open>M_PI\<close> is \<^const>\<open>pi\<close>. Rounding, \<open>NaN\<close> and
  \<open>Inf\<close> are outside this model; the concrete inputs used below never divide by
  zero, never take the root of a negative number and keep \<open>acos\<close> inside \<open>[-1, 1]\<close>.

  Four ways of not returning are values of \<open>error\<close>:
  \<^item> \<open>OutOfRange\<close>: \<open>std::map::at\<close> throws \<open>std::out_of_range\<close> for a missing key;
  \<^item> \<open>AssertionFailure\<close>: an \<open>assert\<close> is violated;
  \<^item> \<open>OutOfBounds\<close>: an element outside a vector is read or written, or
    \<open>front()\<close>/\<open>back()\<close> is taken of an empty vector (undefined behaviour in C++; the
    model stops there);
  \<^item> \<open>IntegerOverflow\<close>: a signed \<open>int\<close> is incremented past \<open>INT_MAX\<close> (undefined
    behaviour as well).
\<close>

datatype error = OutOfRange | AssertionFailure | OutOfBounds | IntegerOverflow

type_synonym vec = "real list"

definition and_then :: "error + 'a \<Rightarrow> ('a \<Rightarrow> error + 'b) \<Rightarrow> error + 'b" where
  "and_then r f = (case r of Inl e \<Rightarrow> Inl e | Inr v \<Rightarrow> f v)"

definition at_key :: "(string \<rightharpoonup> 'v) \<Rightarrow> string \<Rightarrow> error + 'v" where
  \<comment> \<open>\<open>m.at(k)\<close>\<close>
  "at_key m k = (case m k of None \<Rightarrow> Inl OutOfRange | Some v \<Rightarrow> Inr v)"

definition elem :: "'a list \<Rightarrow> nat \<Rightarrow> error + 'a" where
  \<comment> \<open>reading \<open>xs[i]\<close>\<close>
  "elem xs i = (if i < length xs then Inr (xs ! i) else Inl OutOfBounds)"

definition assign :: "'a list \<Rightarrow> nat \<Rightarrow> 'a \<Rightarrow> error + 'a list" where
  \<comment> \<open>\<open>xs[i] = v\<close>\<close>
  "assign xs i v = (if i < length xs then Inr (xs[i := v]) else Inl OutOfBounds)"

definition front_elem :: "'a list \<Rightarrow> error + 'a" where
  \<comment> \<open>reading \<open>xs.front()\<close>\<close>
  "front_elem xs = elem xs 0"

definition back_elem :: "'a list \<Rightarrow> error + 'a" where
  \<comment> \<open>reading \<open>xs.back()\<close>\<close>
  "back_elem xs = (if xs = [] then Inl OutOfBounds else elem xs (length xs - 1))"

definition set_front :: "'a list \<Rightarrow> 'a \<Rightarrow> error + 'a list" where
  \<comment> \<open>\<open>xs.front() = v\<close>\<close>
  "set_front xs v = assign xs 0 v"

definition set_back :: "'a list \<Rightarrow> 'a \<Rightarrow> error + 'a list" where
  \<comment> \<open>\<open>xs.back() = v\<close>\<close>
  "set_back xs v = (if xs = [] then Inl OutOfBounds else assign xs (length xs - 1) v)"

definition load :: "(string \<rightharpoonup> 'a list) \<Rightarrow> string \<Rightarrow> nat \<Rightarrow> error + 'a" where
  \<comment> \<open>reading element \<open>i\<close> of the vector stored under a key\<close>
  "load m k i = and_then (at_key m k) (\<lambda>xs. elem xs i)"

definition store :: "(string \<rightharpoonup> 'a list) \<Rightarrow> string \<Rightarrow> nat \<Rightarrow> 'a \<Rightarrow> error + (string \<rightharpoonup> 'a list)" where
  \<comment> \<open>writing element \<open>i\<close> of the vector stored under a key: two references bound to the
      same key see the same vector, references bound to different keys never interfere\<close>
  "store m k i v =
     and_then (at_key m k) (\<lambda>xs. and_then (assign xs i v) (\<lambda>xs'. Inr (m(k \<mapsto> xs'))))"

fun for_each :: "nat list \<Rightarrow> (nat \<Rightarrow> 's \<Rightarrow> error + 's) \<Rightarrow> 's \<Rightarrow> error + 's" where
  \<comment> \<open>\<open>for (i = 0; i < n; i++) body\<close> is \<open>for_each [0..<n] body\<close>\<close>
  "for_each [] body s = Inr s"
| "for_each (i # rest) body s =
     (case body i s of Inl e \<Rightarrow> Inl e | Inr s' \<Rightarrow> for_each rest body s')"

text \<open>
  \<open>std::size_t\<close> is taken to be 64 bits wide. The assembly routines compute
  \<open>2 * number_of_layers\<close>, \<open>matrix_size - 1\<close> and \<open>matrix_size - 2\<close> in it, and the
  subtractions wrap for an empty system. The loop counter itself never wraps: it starts
  at 1 (or 2), keeps its parity, and stays below a bound of at most \<open>2^64 - 1\<close>
  (or \<open>2^64 - 2\<close>).
\<close>

definition size_t_mul :: "nat \<Rightarrow> nat \<Rightarrow> nat" where
  "size_t_mul a b = (a * b) mod 2 ^ 64"

definition size_t_sub :: "nat \<Rightarrow> nat \<Rightarrow> nat" where
  "size_t_sub a b = (a mod 2 ^ 64 + 2 ^ 64 - b mod 2 ^ 64) mod 2 ^ 64"

function stride_loop :: "nat \<Rightarrow> nat \<Rightarrow> (nat \<Rightarrow> 's \<Rightarrow> error + 's) \<Rightarrow> 's \<Rightarrow> error + 's" where
  \<comment> \<open>\<open>for (n = n0; n < bound; n += 2) body\<close>\<close>
  "stride_loop n bound body s =
     (if n < bound
      then (case body n s of Inl e \<Rightarrow> Inl e | Inr s' \<Rightarrow> stride_loop (n + 2) bound body s')
      else Inr s)"
  by pat_completeness auto
termination
  by (relation "measure (\<lambda>(n, bound, body, s). bound - n)") auto

declare stride_loop.simps [simp del]

section \<open>Data model\<close>

text \<open>
  The radiator state holds the three optical-property arrays. The members are called
  \<open>optical_depth_\<close>, \<open>single_scattering_albedo_\<close> and \<open>assymetry_parameter_\<close> in the
  source; the trailing underscore of member names is dropped throughout.
\<close>

record radiator_state =
  optical_depth :: vec
  single_scattering_albedo :: vec
  assymetry_parameter :: vec

text \<open>
  Modelled from the spec: the grid type (\<open>GridPolicy\<close>) is declared outside the given
  sources; the solver only asks a grid for its number of columns.
\<close>

record grid =
  NumberOfColumns :: nat

record tridiagonal_matrix =
  upper_diagonal :: vec
  main_diagonal :: vec
  lower_diagonal :: vec

text \<open>
  Modelled from the spec: the constructor \<open>TridiagonalMatrix<T>(size, value)\<close> is declared
  outside the given sources; by the data model a system has three diagonals of one common
  length, so the constructor yields three diagonals of \<open>size\<close> entries \<open>value\<close>.
\<close>

definition TridiagonalMatrix :: "nat \<Rightarrow> real \<Rightarrow> tridiagonal_matrix" where
  "TridiagonalMatrix size_arg v =
     \<lparr>upper_diagonal = replicate size_arg v,
      main_diagonal = replicate size_arg v,
      lower_diagonal = replicate size_arg v\<rparr>"

record components =
  direct :: vec
  upwelling :: vec
  downwelling :: vec

record radiation_field =
  spectral_irradiance :: components
  actinic_flux :: components

section \<open>DeltaEddingtonApproximation\<close>

text \<open>
  The function binds \<open>omega\<close> to the optical-depth array, \<open>g\<close> to the
  single-scattering-albedo array and \<open>tau\<close> to the asymmetry-parameter array, and it binds
  the three names \<open>mu\<close>, \<open>lambda\<close> and \<open>Gamma\<close> to the one vector stored under the key
  \<open>"mu"\<close>. The map is a by-value parameter; the model returns the map as the body leaves it.

  Lines 37 to 42 of one iteration:
\<close>

definition DeltaEddingtonApproximation_coefficients ::
  "radiator_state \<Rightarrow> vec \<Rightarrow> nat \<Rightarrow> (string \<rightharpoonup> vec) \<Rightarrow> error + (string \<rightharpoonup> vec)" where
  "DeltaEddingtonApproximation_coefficients accumulated_radiator_states solar_zenith_angles i sp0 =
     and_then (elem solar_zenith_angles i) (\<lambda>zenith.
     let mu_0 = arccos zenith in
     and_then (elem (optical_depth accumulated_radiator_states) i) (\<lambda>omega_i.
     and_then (elem (single_scattering_albedo accumulated_radiator_states) i) (\<lambda>g_i.
     and_then (store sp0 ''gamma1'' i (7 - omega_i * (4 + 3 * g_i))) (\<lambda>sp1.
     and_then (store sp1 ''gamma2'' i (- (1 - omega_i * (4 - 3 * g_i)) / 4)) (\<lambda>sp2.
     and_then (store sp2 ''gamma3'' i ((2 - 3 * g_i * mu_0) / 4)) (\<lambda>sp3.
     and_then (load sp3 ''gamma1'' i) (\<lambda>gamma1_i.
     and_then (load sp3 ''gamma2'' i) (\<lambda>gamma2_i.
     and_then (store sp3 ''mu'' i (sqrt (gamma1_i * gamma1_i - gamma2_i * gamma2_i))) (\<lambda>sp4.
     and_then (load sp4 ''gamma1'' i) (\<lambda>gamma1_i'.
     and_then (load sp4 ''gamma2'' i) (\<lambda>gamma2_i'.
     store sp4 ''mu'' i (sqrt (gamma1_i' * gamma1_i' - gamma2_i' * gamma2_i')))))))))))))"

text \<open>
  Line 43, \<open>mu = (T)0.5\<close>, assigns a scalar to the whole vector: every element of the
  vector under \<open>"mu"\<close> becomes \<open>0.5\<close>.
\<close>

definition DeltaEddingtonApproximation_mu :: "(string \<rightharpoonup> vec) \<Rightarrow> error + (string \<rightharpoonup> vec)" where
  "DeltaEddingtonApproximation_mu sp =
     and_then (at_key sp ''mu'') (\<lambda>mu. Inr (sp(''mu'' \<mapsto> map (\<lambda>_. 1 / 2) mu)))"

definition DeltaEddingtonApproximation ::
  "radiator_state \<Rightarrow> (string \<rightharpoonup> vec) \<Rightarrow> vec \<Rightarrow> error + (string \<rightharpoonup> vec)" where
  "DeltaEddingtonApproximation accumulated_radiator_states solution_parameters solar_zenith_angles =
     (let number_of_columns = length solar_zenith_angles in
      and_then (at_key solution_parameters ''gamma1'') (\<lambda>_.
      and_then (at_key solution_parameters ''gamma2'') (\<lambda>_.
      and_then (at_key solution_parameters ''gamma3'') (\<lambda>_.
      and_then (at_key solution_parameters ''gamma4'') (\<lambda>_.
      and_then (at_key solution_parameters ''mu'') (\<lambda>_.
      for_each [0..<number_of_columns]
        (\<lambda>i sp.
           and_then
             (DeltaEddingtonApproximation_coefficients accumulated_radiator_states
                solar_zenith_angles i sp)
             DeltaEddingtonApproximation_mu)
        solution_parameters))))))"

section \<open>InitializeVariables\<close>

text \<open>
  Here \<open>tau\<close>, \<open>omega\<close> and \<open>g\<close> are the optical depth, the single-scattering albedo and
  the asymmetry parameter. Where the source uses a whole array in a scalar expression of
  iteration \<open>i\<close> (\<open>omega\<close> in lines 82 and 118, \<open>R_sfc\<close> in lines 118, 122 and 123,
  \<open>lambda\<close> in line 119) the model reads element \<open>i\<close> of it.

  One iteration of the delta-scaling loop (lines 81 to 84):
\<close>

definition delta_scaling :: "nat \<Rightarrow> radiator_state \<Rightarrow> error + radiator_state" where
  "delta_scaling i st0 =
     and_then (elem (single_scattering_albedo st0) i) (\<lambda>omega_i.
     let f = omega_i * omega_i in
     and_then (assign (single_scattering_albedo st0) i ((omega_i - f) / (1 - f))) (\<lambda>omega1.
     let st1 = st0\<lparr>single_scattering_albedo := omega1\<rparr> in
     and_then (elem (assymetry_parameter st1) i) (\<lambda>g_i.
     and_then (assign (assymetry_parameter st1) i ((1 - f) * g_i / (1 - g_i * f))) (\<lambda>g1.
     let st2 = st1\<lparr>assymetry_parameter := g1\<rparr> in
     and_then (elem (assymetry_parameter st2) i) (\<lambda>g_i'.
     and_then (elem (single_scattering_albedo st2) i) (\<lambda>omega_i'.
     and_then (assign (single_scattering_albedo st2) i ((1 - g_i' * f) * omega_i')) (\<lambda>omega2.
     Inr (st2\<lparr>single_scattering_albedo := omega2\<rparr>))))))))"

text \<open>
  One iteration of the source-term loop (lines 117 to 125). The loop state is the running
  \<open>tau_cumulative\<close>, the solution parameters and the source terms.
\<close>

definition source_terms_step ::
  "vec \<Rightarrow> radiator_state \<Rightarrow> nat \<Rightarrow> real \<times> (string \<rightharpoonup> vec) \<times> (string \<rightharpoonup> vec)
     \<Rightarrow> error + real \<times> (string \<rightharpoonup> vec) \<times> (string \<rightharpoonup> vec)" where
  "source_terms_step solar_zenith_angles st i state =
     (case state of (tau_cumulative, sp0, src0) \<Rightarrow>
     and_then (elem solar_zenith_angles i) (\<lambda>zenith.
     let mu_0 = arccos zenith in
     and_then (elem (single_scattering_albedo st) i) (\<lambda>omega_i.
     and_then (load sp0 ''source flux'' i) (\<lambda>R_sfc.
     and_then (elem (optical_depth st) i) (\<lambda>tau_i.
     let exponential_term = omega_i * pi * R_sfc * exp (- (tau_cumulative - tau_i) / mu_0) in
     and_then (load sp0 ''lambda'' i) (\<lambda>lambda_i.
     let denominator_term = lambda_i * lambda_i - 1 / (mu_0 * mu_0);
         tau_cumulative' = tau_cumulative + tau_i in
     and_then (store sp0 ''infrared source flux'' i
                 (R_sfc * mu_0 * exp (- tau_cumulative' / mu_0))) (\<lambda>sp1.
     and_then (load sp1 ''source flux'' i) (\<lambda>R_sfc'.
     and_then (store sp1 ''solar source flux'' i (pi * R_sfc')) (\<lambda>sp2.
     and_then (load sp2 ''gamma1'' i) (\<lambda>gamma1_i.
     and_then (load sp2 ''gamma2'' i) (\<lambda>gamma2_i.
     and_then (load sp2 ''gamma3'' i) (\<lambda>gamma3_i.
     and_then (load sp2 ''gamma4'' i) (\<lambda>gamma4_i.
     and_then (store src0 ''C_downwelling'' i
                 (exponential_term * (((gamma1_i + 1) / mu_0) * gamma4_i + gamma2_i * gamma3_i)))
       (\<lambda>src1.
     and_then (store src1 ''C_upwelling'' i
                 (exponential_term * (((gamma1_i - 1) / mu_0) * gamma3_i + gamma4_i * gamma2_i)))
       (\<lambda>src2.
     Inr (tau_cumulative', sp2, src2))))))))))))))))"

definition InitializeVariables ::
  "vec \<Rightarrow> (string \<rightharpoonup> grid) \<Rightarrow> (string \<rightharpoonup> 'p) \<Rightarrow> (string \<rightharpoonup> vec) \<Rightarrow> (string \<rightharpoonup> vec)
     \<Rightarrow> (string \<rightharpoonup> vec) \<Rightarrow> radiator_state
     \<Rightarrow> error + radiator_state \<times> (string \<rightharpoonup> vec) \<times> (string \<rightharpoonup> vec)" where
  "InitializeVariables solar_zenith_angles grids profiles solver_parameters solution_parameters
       source_terms accumulated_radiator_states =
     (let number_of_columns = length solar_zenith_angles in
      and_then (at_key grids ''altitude [m]'') (\<lambda>vertical_grid.
      and_then (at_key grids ''wavelength [m]'') (\<lambda>wavelength_grid.
      if NumberOfColumns vertical_grid \<noteq> number_of_columns then Inl AssertionFailure
      else if NumberOfColumns wavelength_grid \<noteq> 1 then Inl AssertionFailure
      else
      and_then (for_each [0..<number_of_columns] delta_scaling accumulated_radiator_states) (\<lambda>st.
      and_then (at_key source_terms ''C_upwelling'') (\<lambda>_.
      and_then (at_key source_terms ''C_downwelling'') (\<lambda>_.
      and_then (at_key solution_parameters ''infrared source flux'') (\<lambda>_.
      and_then (at_key solution_parameters ''solar source flux'') (\<lambda>_.
      and_then (at_key solution_parameters ''lambda'') (\<lambda>_.
      and_then (at_key solution_parameters ''gamma1'') (\<lambda>_.
      and_then (at_key solution_parameters ''gamma2'') (\<lambda>_.
      and_then (at_key solution_parameters ''gamma3'') (\<lambda>_.
      and_then (at_key solution_parameters ''gamma4'') (\<lambda>_.
      and_then (at_key solution_parameters ''mu'') (\<lambda>_.
      and_then (at_key solution_parameters ''source flux'') (\<lambda>_.
      and_then (for_each [0..<number_of_columns] (source_terms_step solar_zenith_angles st)
                  (0, solution_parameters, source_terms)) (\<lambda>(tau_cumulative, sp, src).
      Inr (st, sp, src)))))))))))))))))"

section \<open>AssembleTridiagonalMatrix and AssembleCoeffcientVector\<close>

definition odd_row :: "vec \<Rightarrow> vec \<Rightarrow> vec \<Rightarrow> vec \<Rightarrow> nat \<Rightarrow> tridiagonal_matrix \<Rightarrow> error + tridiagonal_matrix" where
  "odd_row e1 e2 e3 e4 n m =
     and_then (elem e1 n) (\<lambda>e1_n.
     and_then (elem e2 n) (\<lambda>e2_n.
     and_then (elem e3 n) (\<lambda>e3_n.
     and_then (elem e1 (n + 1)) (\<lambda>e1_n1.
     and_then (elem e2 (n + 1)) (\<lambda>e2_n1.
     and_then (elem e4 (n + 1)) (\<lambda>e4_n1.
     and_then (assign (upper_diagonal m) n (e2_n1 * e1_n - e3_n * e4_n1)) (\<lambda>upper.
     and_then (assign (main_diagonal m) n (e2_n * e2_n1 - e3_n * e4_n1)) (\<lambda>main.
     and_then (assign (lower_diagonal m) n (e3_n * e4_n1 - e1_n1 * e2_n1)) (\<lambda>lower.
     Inr \<lparr>upper_diagonal = upper, main_diagonal = main, lower_diagonal = lower\<rparr>)))))))))"

definition even_row :: "vec \<Rightarrow> vec \<Rightarrow> vec \<Rightarrow> vec \<Rightarrow> nat \<Rightarrow> tridiagonal_matrix \<Rightarrow> error + tridiagonal_matrix" where
  "even_row e1 e2 e3 e4 n m =
     and_then (elem e1 n) (\<lambda>e1_n.
     and_then (elem e2 n) (\<lambda>e2_n.
     and_then (elem e3 n) (\<lambda>e3_n.
     and_then (elem e4 n) (\<lambda>e4_n.
     and_then (elem e1 (n + 1)) (\<lambda>e1_n1.
     and_then (elem e2 (n + 1)) (\<lambda>e2_n1.
     and_then (elem e3 (n + 1)) (\<lambda>e3_n1.
     and_then (elem e4 (n + 1)) (\<lambda>e4_n1.
     and_then (assign (upper_diagonal m) n (e2_n * e3_n - e4_n * e1_n)) (\<lambda>upper.
     and_then (assign (main_diagonal m) n (e1_n * e1_n1 - e3_n * e3_n1)) (\<lambda>main.
     and_then (assign (lower_diagonal m) n (e3_n * e4_n1 - e1_n1 * e2_n1)) (\<lambda>lower.
     Inr \<lparr>upper_diagonal = upper, main_diagonal = main, lower_diagonal = lower\<rparr>)))))))))))"

definition first_row :: "vec \<Rightarrow> vec \<Rightarrow> tridiagonal_matrix \<Rightarrow> error + tridiagonal_matrix" where
  "first_row e1 e2 m =
     and_then (set_front (upper_diagonal m) 0) (\<lambda>upper.
     and_then (front_elem e1) (\<lambda>e1_front.
     and_then (set_front (main_diagonal m) e1_front) (\<lambda>main.
     and_then (front_elem e2) (\<lambda>e2_front.
     and_then (set_front (lower_diagonal m) (- e2_front)) (\<lambda>lower.
     Inr \<lparr>upper_diagonal = upper, main_diagonal = main, lower_diagonal = lower\<rparr>)))))"

definition last_row :: "vec \<Rightarrow> vec \<Rightarrow> vec \<Rightarrow> vec \<Rightarrow> real \<Rightarrow> tridiagonal_matrix \<Rightarrow> error + tridiagonal_matrix" where
  "last_row e1 e2 e3 e4 R_sfc m =
     and_then (back_elem e1) (\<lambda>e1_back.
     and_then (back_elem e3) (\<lambda>e3_back.
     and_then (set_back (lower_diagonal m) (e1_back - R_sfc * e3_back)) (\<lambda>lower.
     and_then (back_elem e2) (\<lambda>e2_back.
     and_then (back_elem e4) (\<lambda>e4_back.
     and_then (set_back (main_diagonal m) (e2_back - R_sfc * e4_back)) (\<lambda>main.
     and_then (set_back (upper_diagonal m) 0) (\<lambda>upper.
     Inr \<lparr>upper_diagonal = upper, main_diagonal = main, lower_diagonal = lower\<rparr>)))))))"

definition AssembleTridiagonalMatrix ::
  "nat \<Rightarrow> (string \<rightharpoonup> vec) \<Rightarrow> (string \<rightharpoonup> real) \<Rightarrow> tridiagonal_matrix \<Rightarrow> error + tridiagonal_matrix" where
  "AssembleTridiagonalMatrix number_of_layers solution_parameters solver_parameters coeffcient_matrix =
     (let matrix_size = size_t_mul 2 number_of_layers in
      and_then (at_key solution_parameters ''e1'') (\<lambda>e1.
      and_then (at_key solution_parameters ''e2'') (\<lambda>e2.
      and_then (at_key solution_parameters ''e3'') (\<lambda>e3.
      and_then (at_key solution_parameters ''e4'') (\<lambda>e4.
      and_then (at_key solver_parameters ''Surface Reflectivity'') (\<lambda>R_sfc.
      and_then (first_row e1 e2 coeffcient_matrix) (\<lambda>m1.
      and_then (stride_loop 1 (size_t_sub matrix_size 1) (odd_row e1 e2 e3 e4) m1) (\<lambda>m2.
      and_then (stride_loop 2 (size_t_sub matrix_size 2) (even_row e1 e2 e3 e4) m2) (\<lambda>m3.
      last_row e1 e2 e3 e4 R_sfc m3)))))))))"

text \<open>
  \<open>AssembleCoeffcientVector\<close> calls a member \<open>start()\<close> of the source-term vectors, which
  \<open>std::vector\<close> does not have; what it returns is a parameter \<open>start\<close> of the model.
\<close>

definition rhs_odd_row :: "(vec \<Rightarrow> error + real) \<Rightarrow> vec \<Rightarrow> vec \<Rightarrow> vec \<Rightarrow> vec \<Rightarrow> nat \<Rightarrow> vec \<Rightarrow> error + vec" where
  "rhs_odd_row start e1 e3 C_upwelling C_downwelling n coeffcient_vector =
     and_then (elem e3 n) (\<lambda>e3_n.
     and_then (start C_upwelling) (\<lambda>up_start.
     and_then (elem C_upwelling n) (\<lambda>up_n.
     and_then (elem e1 n) (\<lambda>e1_n.
     and_then (elem C_downwelling n) (\<lambda>down_n.
     and_then (start C_downwelling) (\<lambda>down_start.
     assign coeffcient_vector n (e3_n * (up_start - up_n) + e1_n * (down_n - down_start))))))))"

definition rhs_even_row :: "(vec \<Rightarrow> error + real) \<Rightarrow> vec \<Rightarrow> vec \<Rightarrow> vec \<Rightarrow> vec \<Rightarrow> nat \<Rightarrow> vec \<Rightarrow> error + vec" where
  "rhs_even_row start e2 e4 C_upwelling C_downwelling n coeffcient_vector =
     and_then (elem e2 (n + 1)) (\<lambda>e2_n1.
     and_then (start C_upwelling) (\<lambda>up_start.
     and_then (elem C_upwelling n) (\<lambda>up_n.
     and_then (elem e4 (n + 1)) (\<lambda>e4_n1.
     and_then (start C_downwelling) (\<lambda>down_start.
     and_then (elem C_downwelling n) (\<lambda>down_n.
     assign coeffcient_vector n (e2_n1 * (up_start - up_n) + e4_n1 * (down_start - down_n))))))))"

definition AssembleCoeffcientVector ::
  "(vec \<Rightarrow> error + real) \<Rightarrow> nat \<Rightarrow> (string \<rightharpoonup> vec) \<Rightarrow> (string \<rightharpoonup> vec) \<Rightarrow> (string \<rightharpoonup> real) \<Rightarrow> vec
     \<Rightarrow> error + vec" where
  "AssembleCoeffcientVector start number_of_layers solution_parameters source_terms
       solver_parameters coeffcient_vector =
     (let matrix_size = size_t_mul 2 number_of_layers in
      and_then (at_key solution_parameters ''e1'') (\<lambda>e1.
      and_then (at_key solution_parameters ''e2'') (\<lambda>e2.
      and_then (at_key solution_parameters ''e3'') (\<lambda>e3.
      and_then (at_key solution_parameters ''e4'') (\<lambda>e4.
      and_then (at_key solver_parameters ''Surface Reflectivity'') (\<lambda>R_sfc.
      and_then (at_key solver_parameters ''source flux'') (\<lambda>f_0.
      and_then (at_key source_terms ''C_upwelling'') (\<lambda>C_upwelling.
      and_then (at_key source_terms ''C_downwelling'') (\<lambda>C_downwelling.
      and_then (front_elem C_downwelling) (\<lambda>down_front.
      and_then (set_front coeffcient_vector (f_0 - down_front)) (\<lambda>v1.
      and_then (stride_loop 1 (size_t_sub matrix_size 1)
                  (rhs_odd_row start e1 e3 C_upwelling C_downwelling) v1) (\<lambda>v2.
      stride_loop 2 (size_t_sub matrix_size 2)
        (rhs_even_row start e2 e4 C_upwelling C_downwelling) v2))))))))))))"

section \<open>Solve: allocation of the linear system\<close>

text \<open>
  \<open>Solve\<close> (lines 49 to 51 of \<open>solve.hh\<close>) allocates the coefficient matrix and the
  coefficient vector from the number of columns, which is the number of solar zenith
  angles. The calls that follow in \<open>Solve\<close> pass argument lists that the routines above do
  not declare, and the tridiagonal solver itself is outside the given sources; the
  routines are therefore modelled one by one, each with the parameters it declares.
\<close>

definition Solve_coeffcient_matrix :: "vec \<Rightarrow> tridiagonal_matrix" where
  "Solve_coeffcient_matrix solar_zenith_angles =
     (let number_of_columns = length solar_zenith_angles in TridiagonalMatrix number_of_columns 0)"

definition Solve_coeffcient_vector :: "vec \<Rightarrow> vec" where
  "Solve_coeffcient_vector solar_zenith_angles =
     (let number_of_columns = length solar_zenith_angles in replicate number_of_columns 0)"

section \<open>ComputeRadiationField\<close>

text \<open>
  Each of the six loops walks one array and stores \<open>offset++\<close>, an \<open>int\<close> converted to
  \<open>T\<close>. \<open>fill_from offset xs\<close> is one such loop; incrementing \<open>INT_MAX\<close> overflows.
\<close>

fun fill_from :: "int \<Rightarrow> vec \<Rightarrow> error + vec" where
  "fill_from offset [] = Inr []"
| "fill_from offset (x # rest) =
     (if offset = 2147483647 then Inl IntegerOverflow
      else (case fill_from (offset + 1) rest of
              Inl e \<Rightarrow> Inl e
            | Inr rest' \<Rightarrow> Inr (real_of_int offset # rest')))"

definition ComputeRadiationField ::
  "vec \<Rightarrow> (string \<rightharpoonup> 'g) \<Rightarrow> (string \<rightharpoonup> 'p) \<Rightarrow> real list list \<Rightarrow> radiation_field
     \<Rightarrow> error + radiation_field" where
  "ComputeRadiationField solar_zenith_angles grids profiles solution_parameters field =
     and_then (fill_from 42 (direct (spectral_irradiance field))) (\<lambda>irradiance_direct.
     and_then (fill_from 93 (upwelling (spectral_irradiance field))) (\<lambda>irradiance_upwelling.
     and_then (fill_from 52 (downwelling (spectral_irradiance field))) (\<lambda>irradiance_downwelling.
     and_then (fill_from 5 (direct (actinic_flux field))) (\<lambda>actinic_direct.
     and_then (fill_from 24 (upwelling (actinic_flux field))) (\<lambda>actinic_upwelling.
     and_then (fill_from 97 (downwelling (actinic_flux field))) (\<lambda>actinic_downwelling.
     Inr \<lparr>spectral_irradiance =
            \<lparr>direct = irradiance_direct, upwelling = irradiance_upwelling,
             downwelling = irradiance_downwelling\<rparr>,
          actinic_flux =
            \<lparr>direct = actinic_direct, upwelling = actinic_upwelling,
             downwelling = actinic_downwelling\<rparr>\<rparr>))))))"

section \<open>The formulas of the specification\<close>

text \<open>
  The definitions of this section follow the wording of the specification, not the source;
  the source is compared with them below.

  Beer's law for the direct beam: the incident flux attenuated by the cumulative optical
  depth of the layers above boundary \<open>k\<close>.
\<close>

definition spec_direct_irradiance :: "real \<Rightarrow> real \<Rightarrow> vec \<Rightarrow> nat \<Rightarrow> real" where
  "spec_direct_irradiance F0 mu0 taus k = F0 * exp (- sum_list (take k taus) / mu0)"

text \<open>Delta scaling of one layer: \<open>(omega, g, tau)\<close> to \<open>(omega', g', tau')\<close>.\<close>

definition spec_delta_scaling :: "real \<Rightarrow> real \<Rightarrow> real \<Rightarrow> real \<times> real \<times> real" where
  "spec_delta_scaling omega g tau =
     (let f = g\<^sup>2 in (omega * (1 - f) / (1 - omega * f), g / (1 + g), (1 - omega * f) * tau))"

text \<open>The gamma coefficients, the eigenvalue and the coupling ratio.\<close>

definition spec_gamma1 :: "real \<Rightarrow> real \<Rightarrow> real" where
  "spec_gamma1 omega' g' = (7 - omega' * (4 + 3 * g')) / 4"

definition spec_gamma2 :: "real \<Rightarrow> real \<Rightarrow> real" where
  "spec_gamma2 omega' g' = - (1 - omega' * (4 - 3 * g')) / 4"

definition spec_gamma3 :: "real \<Rightarrow> real \<Rightarrow> real" where
  "spec_gamma3 g' mu0 = (2 - 3 * g' * mu0) / 4"

definition spec_gamma4 :: "real \<Rightarrow> real \<Rightarrow> real" where
  "spec_gamma4 g' mu0 = 1 - spec_gamma3 g' mu0"

definition spec_lambda :: "real \<Rightarrow> real \<Rightarrow> real" where
  "spec_lambda gamma1 gamma2 = sqrt (gamma1\<^sup>2 - gamma2\<^sup>2)"

definition spec_Gamma :: "real \<Rightarrow> real \<Rightarrow> real" where
  "spec_Gamma gamma1 gamma2 = gamma2 / (gamma1 + spec_lambda gamma1 gamma2)"

text \<open>The source terms.\<close>

definition spec_exp_term :: "real \<Rightarrow> real \<Rightarrow> real \<Rightarrow> real \<Rightarrow> real" where
  "spec_exp_term omega' mu0 F0 tau_cum = omega' * pi * mu0 * F0 * exp (- tau_cum / mu0)"

definition spec_C_downwelling :: "real \<Rightarrow> real \<Rightarrow> real \<Rightarrow> real \<Rightarrow> real \<Rightarrow> real \<Rightarrow> real \<Rightarrow> real" where
  "spec_C_downwelling exp_term gamma1 gamma2 gamma3 gamma4 lambda mu0 =
     exp_term * ((gamma1 + 1) / mu0 * gamma4 + gamma2 * gamma3) / (lambda\<^sup>2 - 1 / mu0\<^sup>2)"

section \<open>Observations and invariants used in the proofs\<close>

definition params_values :: "string list \<Rightarrow> error + (string \<rightharpoonup> vec) \<Rightarrow> error + vec option list" where
  \<comment> \<open>the vectors a resulting map holds under the given keys\<close>
  "params_values keys r = map_sum id (\<lambda>m. map m keys) r"

definition source_term_values ::
  "string list \<Rightarrow> error + radiator_state \<times> (string \<rightharpoonup> vec) \<times> (string \<rightharpoonup> vec)
     \<Rightarrow> error + vec option list" where
  \<comment> \<open>the source-term vectors that \<open>InitializeVariables\<close> leaves under the given keys\<close>
  "source_term_values keys r = map_sum id (\<lambda>(st, sp, src). map src keys) r"

definition consecutive_integers :: "int \<Rightarrow> nat \<Rightarrow> vec" where
  \<comment> \<open>\<open>c, c + 1, ..., c + n - 1\<close>\<close>
  "consecutive_integers c n = map (\<lambda>k. real_of_int (c + int k)) [0..<n]"

definition has_vectors :: "nat \<Rightarrow> string list \<Rightarrow> (string \<rightharpoonup> vec) \<Rightarrow> bool" where
  \<comment> \<open>every listed key is present and holds at least \<open>n\<close> entries\<close>
  "has_vectors n keys m \<longleftrightarrow> (\<forall>k \<in> set keys. \<exists>xs. m k = Some xs \<and> n \<le> length xs)"

definition solution_keys :: "string list" where
  "solution_keys = [''infrared source flux'', ''solar source flux'', ''lambda'', ''gamma1'',
     ''gamma2'', ''gamma3'', ''gamma4'', ''mu'', ''source flux'']"

definition source_keys :: "string list" where
  "source_keys = [''C_upwelling'', ''C_downwelling'']"

definition same_top_row :: "tridiagonal_matrix \<Rightarrow> tridiagonal_matrix \<Rightarrow> bool" where
  \<comment> \<open>same shape and same entries in row 0\<close>
  "same_top_row m m' \<longleftrightarrow>
     length (upper_diagonal m') = length (upper_diagonal m) \<and>
     length (main_diagonal m') = length (main_diagonal m) \<and>
     length (lower_diagonal m') = length (lower_diagonal m) \<and>
     upper_diagonal m' ! 0 = upper_diagonal m ! 0 \<and>
     main_diagonal m' ! 0 = main_diagonal m ! 0 \<and>
     lower_diagonal m' ! 0 = lower_diagonal m ! 0"

definition same_shape :: "tridiagonal_matrix \<Rightarrow> tridiagonal_matrix \<Rightarrow> bool" where
  \<comment> \<open>the three diagonals keep their lengths\<close>
  "same_shape m m' \<longleftrightarrow>
     length (upper_diagonal m') = length (upper_diagonal m) \<and>
     length (main_diagonal m') = length (main_diagonal m) \<and>
     length (lower_diagonal m') = length (lower_diagonal m)"

section \<open>Basic facts\<close>

lemmas vec_defs = and_then_def at_key_def elem_def assign_def front_elem_def back_elem_def
  set_front_def set_back_def load_def store_def

lemmas init_defs = InitializeVariables_def delta_scaling_def source_terms_step_def vec_defs

lemmas approximation_defs = DeltaEddingtonApproximation_def
  DeltaEddingtonApproximation_coefficients_def DeltaEddingtonApproximation_mu_def vec_defs

lemmas assemble_defs = AssembleTridiagonalMatrix_def AssembleCoeffcientVector_def first_row_def
  last_row_def odd_row_def even_row_def rhs_odd_row_def rhs_even_row_def size_t_mul_def
  size_t_sub_def Solve_coeffcient_matrix_def Solve_coeffcient_vector_def TridiagonalMatrix_def
  stride_loop.simps vec_defs

lemma and_thenE:
  assumes "and_then r f = Inr y"
  obtains v where "r = Inr v" and "f v = Inr y"
  using assms by (cases r) (auto simp: and_then_def)

lemma for_each_total:
  assumes "P s" and "\<And>i t. i \<in> set indices \<Longrightarrow> P t \<Longrightarrow> \<exists>t'. body i t = Inr t' \<and> P t'"
  shows "\<exists>s'. for_each indices body s = Inr s' \<and> P s'"
  using assms
proof (induction indices arbitrary: s)
  case Nil
  then show ?case by simp
next
  case (Cons i rest)
  from Cons.prems obtain t where t: "body i s = Inr t" "P t" by (meson list.set_intros(1))
  have "\<exists>s'. for_each rest body t = Inr s' \<and> P s'"
    by (rule Cons.IH [OF t(2)]) (use Cons.prems(2) in auto)
  with t show ?case by simp
qed

lemma for_each_related:
  assumes "for_each indices body s = Inr s'"
    and "\<And>i t t'. i \<in> set indices \<Longrightarrow> body i t = Inr t' \<Longrightarrow> body' i (f t) = Inr (f t')"
  shows "for_each indices body' (f s) = Inr (f s')"
  using assms
proof (induction indices arbitrary: s)
  case Nil
  then show ?case by simp
next
  case (Cons i rest)
  from Cons.prems(1) obtain t where t: "body i s = Inr t" and r: "for_each rest body t = Inr s'"
    by (auto split: sum.splits)
  have "body' i (f s) = Inr (f t)" using Cons.prems(2) t by simp
  moreover have "for_each rest body' (f t) = Inr (f s')"
    by (rule Cons.IH [OF r]) (use Cons.prems(2) in auto)
  ultimately show ?case by simp
qed

lemma stride_loop_invariant:
  assumes "stride_loop n0 bound body s = Inr s'"
    and "P s"
    and "\<And>n t t'. n0 \<le> n \<Longrightarrow> n < bound \<Longrightarrow> P t \<Longrightarrow> body n t = Inr t' \<Longrightarrow> P t'"
  shows "P s'"
  using assms
proof (induction n0 bound body s rule: stride_loop.induct)
  case (1 n bound body s)
  show ?case
  proof (cases "n < bound")
    case False
    with "1.prems"(1) have "s' = s" by (simp add: stride_loop.simps)
    with "1.prems"(2) show ?thesis by simp
  next
    case True
    with "1.prems"(1) obtain s1 where b: "body n s = Inr s1"
      and rest: "stride_loop (n + 2) bound body s1 = Inr s'"
      by (subst (asm) stride_loop.simps) (auto split: sum.splits)
    have "P s1" using "1.prems"(3) [OF _ True "1.prems"(2) b] by simp
    moreover have "\<And>k t t'. n + 2 \<le> k \<Longrightarrow> k < bound \<Longrightarrow> P t \<Longrightarrow> body k t = Inr t' \<Longrightarrow> P t'"
      using "1.prems"(3) by (meson add_leD1)
    ultimately show ?thesis
      using "1.IH" [OF True b rest] by blast
  qed
qed

section \<open>The radiation field is a placeholder fill\<close>

lemma fill_from_length_cong:
  "length xs = length ys \<Longrightarrow> fill_from offset xs = fill_from offset ys"
proof (induction xs arbitrary: ys offset)
  case Nil
  then show ?case by simp
next
  case (Cons x xs)
  then obtain y ys' where ys: "ys = y # ys'" and len: "length xs = length ys'"
    by (cases ys) auto
  from Cons.IH [OF len] show ?case by (simp add: ys)
qed

lemma fill_from_Inr:
  "fill_from offset xs = Inr ys \<Longrightarrow> ys = consecutive_integers offset (length xs)"
  unfolding consecutive_integers_def
proof (induction xs arbitrary: ys offset)
  case Nil
  then show ?case by simp
next
  case (Cons x xs)
  from Cons.prems obtain rest' where r: "fill_from (offset + 1) xs = Inr rest'"
    and ys: "ys = real_of_int offset # rest'"
    by (auto split: if_splits sum.splits)
  have "rest' = map (\<lambda>k. real_of_int (offset + 1 + int k)) [0..<length xs]"
    by (rule Cons.IH [OF r])
  then show ?case
    by (simp add: ys map_upt_Suc add.assoc add.commute del: upt_Suc)
qed

lemma fill_from_success:
  "offset + int (length xs) \<le> 2147483647 \<Longrightarrow>
     fill_from offset xs = Inr (consecutive_integers offset (length xs))"
  unfolding consecutive_integers_def
proof (induction xs arbitrary: offset)
  case Nil
  then show ?case by simp
next
  case (Cons x xs)
  then have "fill_from (offset + 1) xs =
      Inr (map (\<lambda>k. real_of_int (offset + 1 + int k)) [0..<length xs])"
    by simp
  moreover from Cons.prems have "offset \<noteq> 2147483647" by simp
  ultimately show ?case by (simp add: map_upt_Suc add.assoc add.commute del: upt_Suc)
qed

lemma consecutive_integers_Ints: "set (consecutive_integers c n) \<subseteq> \<int>"
  by (auto simp: consecutive_integers_def)

lemma ComputeRadiationField_Inr:
  assumes "ComputeRadiationField sza grids profiles sp field = Inr out"
  shows "out =
     \<lparr>spectral_irradiance =
        \<lparr>direct = consecutive_integers 42 (length (direct (spectral_irradiance field))),
         upwelling = consecutive_integers 93 (length (upwelling (spectral_irradiance field))),
         downwelling = consecutive_integers 52 (length (downwelling (spectral_irradiance field)))\<rparr>,
      actinic_flux =
        \<lparr>direct = consecutive_integers 5 (length (direct (actinic_flux field))),
         upwelling = consecutive_integers 24 (length (upwelling (actinic_flux field))),
         downwelling = consecutive_integers 97 (length (downwelling (actinic_flux field)))\<rparr>\<rparr>"
  using assms unfolding ComputeRadiationField_def
  by (elim and_thenE) (auto dest!: fill_from_Inr)

lemma ComputeRadiationField_total:
  assumes "length (direct (spectral_irradiance field)) \<le> 2147483550"
    and "length (upwelling (spectral_irradiance field)) \<le> 2147483550"
    and "length (downwelling (spectral_irradiance field)) \<le> 2147483550"
    and "length (direct (actinic_flux field)) \<le> 2147483550"
    and "length (upwelling (actinic_flux field)) \<le> 2147483550"
    and "length (downwelling (actinic_flux field)) \<le> 2147483550"
  shows "\<exists>out. ComputeRadiationField sza grids profiles sp field = Inr out"
  using assms
  by (simp add: ComputeRadiationField_def and_then_def fill_from_success)

lemma ComputeRadiationField_lengths_only:
  assumes "length (direct (spectral_irradiance field)) = length (direct (spectral_irradiance field'))"
    and "length (upwelling (spectral_irradiance field)) = length (upwelling (spectral_irradiance field'))"
    and "length (downwelling (spectral_irradiance field)) = length (downwelling (spectral_irradiance field'))"
    and "length (direct (actinic_flux field)) = length (direct (actinic_flux field'))"
    and "length (upwelling (actinic_flux field)) = length (upwelling (actinic_flux field'))"
    and "length (downwelling (actinic_flux field)) = length (downwelling (actinic_flux field'))"
  shows "ComputeRadiationField sza grids profiles sp field =
         ComputeRadiationField sza' grids' profiles' sp' field'"
  unfolding ComputeRadiationField_def
  using fill_from_length_cong [OF assms(1), of 42] fill_from_length_cong [OF assms(2), of 93]
    fill_from_length_cong [OF assms(3), of 52] fill_from_length_cong [OF assms(4), of 5]
    fill_from_length_cong [OF assms(5), of 24] fill_from_length_cong [OF assms(6), of 97]
  by simp

lemma ComputeRadiationField_example:
  "ComputeRadiationField [0] (Map.empty :: string \<rightharpoonup> grid) (Map.empty :: string \<rightharpoonup> unit) [[1 / 2]]
     \<lparr>spectral_irradiance = \<lparr>direct = [0, 0], upwelling = [0, 0], downwelling = [0, 0]\<rparr>,
      actinic_flux = \<lparr>direct = [0, 0], upwelling = [0, 0], downwelling = [0, 0]\<rparr>\<rparr>
   = Inr \<lparr>spectral_irradiance = \<lparr>direct = [42, 43], upwelling = [93, 94], downwelling = [52, 53]\<rparr>,
          actinic_flux = \<lparr>direct = [5, 6], upwelling = [24, 25], downwelling = [97, 98]\<rparr>\<rparr>"
  by (simp add: ComputeRadiationField_def and_then_def)

text \<open>
  Claim C10. The output of \<open>ComputeRadiationField\<close> depends on nothing but the lengths of
  the six arrays of the radiation field: two calls on fields of the same lengths agree,
  whatever the solar zenith angles, grids, profiles and solution parameters are. Whenever
  the call returns, the six arrays hold the consecutive integers from 42 (direct
  irradiance), 93 (upwelling irradiance), 52 (downwelling irradiance), 5 (direct actinic
  flux), 24 (upwelling actinic flux) and 97 (downwelling actinic flux); and it returns
  whenever no array has more than 2147483550 entries, so that the \<open>int\<close> counter stays in
  range.
\<close>

theorem ComputeRadiationField_placeholder_fill:
  assumes "length (direct (spectral_irradiance field)) = length (direct (spectral_irradiance field'))"
    and "length (upwelling (spectral_irradiance field)) = length (upwelling (spectral_irradiance field'))"
    and "length (downwelling (spectral_irradiance field)) = length (downwelling (spectral_irradiance field'))"
    and "length (direct (actinic_flux field)) = length (direct (actinic_flux field'))"
    and "length (upwelling (actinic_flux field)) = length (upwelling (actinic_flux field'))"
    and "length (downwelling (actinic_flux field)) = length (downwelling (actinic_flux field'))"
  shows "ComputeRadiationField sza grids profiles sp field =
           ComputeRadiationField sza' grids' profiles' sp' field'
       \<and> (\<forall>out. ComputeRadiationField sza grids profiles sp field = Inr out \<longrightarrow>
            out =
              \<lparr>spectral_irradiance =
                 \<lparr>direct = consecutive_integers 42 (length (direct (spectral_irradiance field))),
                  upwelling = consecutive_integers 93 (length (upwelling (spectral_irradiance field))),
                  downwelling = consecutive_integers 52 (length (downwelling (spectral_irradiance field)))\<rparr>,
               actinic_flux =
                 \<lparr>direct = consecutive_integers 5 (length (direct (actinic_flux field))),
                  upwelling = consecutive_integers 24 (length (upwelling (actinic_flux field))),
                  downwelling = consecutive_integers 97 (length (downwelling (actinic_flux field)))\<rparr>\<rparr>)
       \<and> ((\<forall>n \<in> {length (direct (spectral_irradiance field)),
                   length (upwelling (spectral_irradiance field)),
                   length (downwelling (spectral_irradiance field)),
                   length (direct (actinic_flux field)),
                   length (upwelling (actinic_flux field)),
                   length (downwelling (actinic_flux field))}. n \<le> 2147483550) \<longrightarrow>
            (\<exists>out. ComputeRadiationField sza grids profiles sp field = Inr out))"
proof (intro conjI allI impI)
  show "ComputeRadiationField sza grids profiles sp field =
        ComputeRadiationField sza' grids' profiles' sp' field'"
    by (rule ComputeRadiationField_lengths_only [OF assms])
next
  fix out
  assume "ComputeRadiationField sza grids profiles sp field = Inr out"
  then show "out =
              \<lparr>spectral_irradiance =
                 \<lparr>direct = consecutive_integers 42 (length (direct (spectral_irradiance field))),
                  upwelling = consecutive_integers 93 (length (upwelling (spectral_irradiance field))),
                  downwelling = consecutive_integers 52 (length (downwelling (spectral_irradiance field)))\<rparr>,
               actinic_flux =
                 \<lparr>direct = consecutive_integers 5 (length (direct (actinic_flux field))),
                  upwelling = consecutive_integers 24 (length (upwelling (actinic_flux field))),
                  downwelling = consecutive_integers 97 (length (downwelling (actinic_flux field)))\<rparr>\<rparr>"
    by (rule ComputeRadiationField_Inr)
next
  assume "\<forall>n \<in> {length (direct (spectral_irradiance field)),
                   length (upwelling (spectral_irradiance field)),
                   length (downwelling (spectral_irradiance field)),
                   length (direct (actinic_flux field)),
                   length (upwelling (actinic_flux field)),
                   length (downwelling (actinic_flux field))}. n \<le> 2147483550"
  then show "\<exists>out. ComputeRadiationField sza grids profiles sp field = Inr out"
    by (intro ComputeRadiationField_total) simp_all
qed

text \<open>
  Two calls that differ in every input but the lengths of the arrays: they agree, the
  first one returns, and what it returns are the consecutive integers.
\<close>

theorem ComputeRadiationField_placeholder_fill_witness:
  "ComputeRadiationField [0] (Map.empty :: string \<rightharpoonup> grid) (Map.empty :: string \<rightharpoonup> unit) [[1 / 2]]
     \<lparr>spectral_irradiance = \<lparr>direct = [0, 0], upwelling = [0, 0], downwelling = [0, 0]\<rparr>,
      actinic_flux = \<lparr>direct = [0, 0], upwelling = [0, 0], downwelling = [0, 0]\<rparr>\<rparr>
   = ComputeRadiationField [1 / 2, 1 / 3] [''altitude [m]'' \<mapsto> \<lparr>NumberOfColumns = 2\<rparr>]
       (Map.empty :: string \<rightharpoonup> unit) [[7, 8], [9, 10]]
     \<lparr>spectral_irradiance = \<lparr>direct = [1, 2], upwelling = [3, 4], downwelling = [5, 6]\<rparr>,
      actinic_flux = \<lparr>direct = [7, 8], upwelling = [9, 10], downwelling = [11, 12]\<rparr>\<rparr>
   \<and> \<lparr>spectral_irradiance = \<lparr>direct = [42, 43], upwelling = [93, 94], downwelling = [52, 53]\<rparr>,
      actinic_flux = \<lparr>direct = [5, 6], upwelling = [24, 25], downwelling = [97, 98]\<rparr>\<rparr>
   = \<lparr>spectral_irradiance =
        \<lparr>direct = consecutive_integers 42 2, upwelling = consecutive_integers 93 2,
         downwelling = consecutive_integers 52 2\<rparr>,
      actinic_flux =
        \<lparr>direct = consecutive_integers 5 2, upwelling = consecutive_integers 24 2,
         downwelling = consecutive_integers 97 2\<rparr>\<rparr>
   \<and> (\<exists>out. ComputeRadiationField [0] (Map.empty :: string \<rightharpoonup> grid)
         (Map.empty :: string \<rightharpoonup> unit) [[1 / 2]]
         \<lparr>spectral_irradiance = \<lparr>direct = [0, 0], upwelling = [0, 0], downwelling = [0, 0]\<rparr>,
          actinic_flux = \<lparr>direct = [0, 0], upwelling = [0, 0], downwelling = [0, 0]\<rparr>\<rparr>
         = Inr out)"
proof -
  let ?A = "\<lparr>spectral_irradiance = \<lparr>direct = [0, 0], upwelling = [0, 0], downwelling = [0, 0]\<rparr>,
      actinic_flux = \<lparr>direct = [0, 0 :: real], upwelling = [0, 0], downwelling = [0, 0]\<rparr>\<rparr>"
  let ?B = "\<lparr>spectral_irradiance = \<lparr>direct = [1, 2], upwelling = [3, 4], downwelling = [5, 6]\<rparr>,
      actinic_flux = \<lparr>direct = [7, 8 :: real], upwelling = [9, 10], downwelling = [11, 12]\<rparr>\<rparr>"
  have fill: "ComputeRadiationField [0] (Map.empty :: string \<rightharpoonup> grid)
        (Map.empty :: string \<rightharpoonup> unit) [[1 / 2]] ?A =
      ComputeRadiationField [1 / 2, 1 / 3] [''altitude [m]'' \<mapsto> \<lparr>NumberOfColumns = 2\<rparr>]
        (Map.empty :: string \<rightharpoonup> unit) [[7, 8], [9, 10]] ?B
    \<and> (\<forall>out. ComputeRadiationField [0] (Map.empty :: string \<rightharpoonup> grid)
            (Map.empty :: string \<rightharpoonup> unit) [[1 / 2]] ?A = Inr out \<longrightarrow>
          out =
            \<lparr>spectral_irradiance =
               \<lparr>direct = consecutive_integers 42 (length (direct (spectral_irradiance ?A))),
                upwelling = consecutive_integers 93 (length (upwelling (spectral_irradiance ?A))),
                downwelling = consecutive_integers 52 (length (downwelling (spectral_irradiance ?A)))\<rparr>,
             actinic_flux =
               \<lparr>direct = consecutive_integers 5 (length (direct (actinic_flux ?A))),
                upwelling = consecutive_integers 24 (length (upwelling (actinic_flux ?A))),
                downwelling = consecutive_integers 97 (length (downwelling (actinic_flux ?A)))\<rparr>\<rparr>)
    \<and> ((\<forall>n \<in> {length (direct (spectral_irradiance ?A)),
                length (upwelling (spectral_irradiance ?A)),
                length (downwelling (spectral_irradiance ?A)),
                length (direct (actinic_flux ?A)),
                length (upwelling (actinic_flux ?A)),
                length (downwelling (actinic_flux ?A))}. n \<le> 2147483550) \<longrightarrow>
          (\<exists>out. ComputeRadiationField [0] (Map.empty :: string \<rightharpoonup> grid)
             (Map.empty :: string \<rightharpoonup> unit) [[1 / 2]] ?A = Inr out))"
    by (rule ComputeRadiationField_placeholder_fill) simp_all
  from fill have agree: "ComputeRadiationField [0] (Map.empty :: string \<rightharpoonup> grid)
        (Map.empty :: string \<rightharpoonup> unit) [[1 / 2]] ?A =
      ComputeRadiationField [1 / 2, 1 / 3] [''altitude [m]'' \<mapsto> \<lparr>NumberOfColumns = 2\<rparr>]
        (Map.empty :: string \<rightharpoonup> unit) [[7, 8], [9, 10]] ?B"
    by (rule conjunct1)
  from conjunct1 [OF conjunct2 [OF fill], rule_format, OF ComputeRadiationField_example]
  have integers: "\<lparr>spectral_irradiance =
        \<lparr>direct = [42, 43], upwelling = [93, 94], downwelling = [52, 53]\<rparr>,
      actinic_flux = \<lparr>direct = [5, 6], upwelling = [24, 25], downwelling = [97, 98]\<rparr>\<rparr>
   = \<lparr>spectral_irradiance =
        \<lparr>direct = consecutive_integers 42 2, upwelling = consecutive_integers 93 2,
         downwelling = consecutive_integers 52 2\<rparr>,
      actinic_flux =
        \<lparr>direct = consecutive_integers 5 2, upwelling = consecutive_integers 24 2,
         downwelling = consecutive_integers 97 2\<rparr>\<rparr>"
    by (simp add: numeral_2_eq_2)
  from conjunct2 [OF conjunct2 [OF fill]]
  have returns: "\<exists>out. ComputeRadiationField [0] (Map.empty :: string \<rightharpoonup> grid)
         (Map.empty :: string \<rightharpoonup> unit) [[1 / 2]] ?A = Inr out"
    by simp
  from agree integers returns show ?thesis by blast
qed

text \<open>
  The direct irradiance is not Beer's law. For one layer of optical depth \<open>1/2\<close> under an
  overhead sun (zenith angle 0) and unit incident flux, Beer's law gives 1 at the top
  boundary and \<open>exp (-1/2)\<close> below the layer; the field holds 42 and 43.
\<close>

theorem ComputeRadiationField_not_beers_law:
  "ComputeRadiationField [0] (Map.empty :: string \<rightharpoonup> grid) (Map.empty :: string \<rightharpoonup> unit) [[1 / 2]]
     \<lparr>spectral_irradiance = \<lparr>direct = [0, 0], upwelling = [0, 0], downwelling = [0, 0]\<rparr>,
      actinic_flux = \<lparr>direct = [0, 0], upwelling = [0, 0], downwelling = [0, 0]\<rparr>\<rparr>
   = Inr \<lparr>spectral_irradiance = \<lparr>direct = [42, 43], upwelling = [93, 94], downwelling = [52, 53]\<rparr>,
          actinic_flux = \<lparr>direct = [5, 6], upwelling = [24, 25], downwelling = [97, 98]\<rparr>\<rparr>
   \<and> [42, 43] \<noteq>
       [spec_direct_irradiance 1 (cos 0) [1 / 2] 0, spec_direct_irradiance 1 (cos 0) [1 / 2] 1]"
  by (simp add: ComputeRadiationField_example spec_direct_irradiance_def)

text \<open>
  Claim C1, as amended. Whenever \<open>ComputeRadiationField\<close> returns, the direct spectral
  irradiance keeps its length and its entry \<open>k\<close> is the integer \<open>42 + k\<close>, whatever the
  solar zenith angles, grids, profiles and solution parameters are: the documented
  placeholder, with no attenuation of an incident flux.
\<close>

theorem ComputeRadiationField_direct_irradiance:
  assumes "ComputeRadiationField sza grids profiles sp field = Inr out"
    and "k < length (direct (spectral_irradiance field))"
  shows "length (direct (spectral_irradiance out)) = length (direct (spectral_irradiance field))
       \<and> direct (spectral_irradiance out) ! k = real_of_int (42 + int k)"
  using assms(2) ComputeRadiationField_Inr [OF assms(1)]
  by (simp add: consecutive_integers_def)

theorem ComputeRadiationField_direct_irradiance_witness:
  "length (direct (spectral_irradiance
     \<lparr>spectral_irradiance = \<lparr>direct = [42, 43], upwelling = [93, 94], downwelling = [52, 53]\<rparr>,
      actinic_flux = \<lparr>direct = [5, 6], upwelling = [24, 25], downwelling = [97, 98]\<rparr>\<rparr>))
   = length (direct (spectral_irradiance
     \<lparr>spectral_irradiance = \<lparr>direct = [0, 0], upwelling = [0, 0], downwelling = [0, 0]\<rparr>,
      actinic_flux = \<lparr>direct = [0, 0], upwelling = [0, 0], downwelling = [0, 0]\<rparr>\<rparr>))
   \<and> direct (spectral_irradiance
     \<lparr>spectral_irradiance = \<lparr>direct = [42, 43], upwelling = [93, 94], downwelling = [52, 53]\<rparr>,
      actinic_flux = \<lparr>direct = [5, 6], upwelling = [24, 25], downwelling = [97, 98]\<rparr>\<rparr>) ! 1
   = real_of_int (42 + int 1)"
  by (rule ComputeRadiationField_direct_irradiance [OF ComputeRadiationField_example]) simp

section \<open>Delta scaling in InitializeVariables\<close>

text \<open>
  Claim C2. Evaluation of \<open>InitializeVariables\<close> on one column with optical depth 1,
  single-scattering albedo \<open>1/2\<close> and asymmetry parameter \<open>1/3\<close>. The source takes
  \<open>f\<close> as the square of the albedo (\<open>1/4\<close>, not \<open>g\<^sup>2 = 1/9\<close>), writes the albedo
  twice, the second time from the already updated albedo and asymmetry parameter, and
  leaves the optical depth as it was; the delta scaling of the specification gives
  \<open>(8/17, 1/4, 17/18)\<close> for albedo, asymmetry parameter and optical depth.
\<close>

theorem InitializeVariables_delta_scaling_values:
  "map_sum id fst
     (InitializeVariables [0]
        [''altitude [m]'' \<mapsto> \<lparr>NumberOfColumns = 1\<rparr>, ''wavelength [m]'' \<mapsto> \<lparr>NumberOfColumns = 1\<rparr>]
        (Map.empty :: string \<rightharpoonup> unit) Map.empty
        [''infrared source flux'' \<mapsto> [0], ''solar source flux'' \<mapsto> [0], ''lambda'' \<mapsto> [1],
         ''gamma1'' \<mapsto> [1], ''gamma2'' \<mapsto> [1], ''gamma3'' \<mapsto> [1], ''gamma4'' \<mapsto> [0],
         ''mu'' \<mapsto> [1 / 2], ''source flux'' \<mapsto> [1]]
        [''C_upwelling'' \<mapsto> [0], ''C_downwelling'' \<mapsto> [0]]
        \<lparr>optical_depth = [1], single_scattering_albedo = [1 / 2], assymetry_parameter = [1 / 3]\<rparr>)
   = Inr \<lparr>optical_depth = [1], single_scattering_albedo = [41 / 132],
          assymetry_parameter = [3 / 11]\<rparr>
   \<and> spec_delta_scaling (1 / 2) (1 / 3) 1 = (8 / 17, 1 / 4, 17 / 18)"
  by (simp add: init_defs spec_delta_scaling_def power2_eq_square)

section \<open>The coefficients of DeltaEddingtonApproximation\<close>

text \<open>
  Claim C3. Evaluation of \<open>DeltaEddingtonApproximation\<close> on one column with zenith angle 0,
  optical depth 2, single-scattering albedo \<open>1/2\<close> and asymmetry parameter 0. The source
  stores \<open>gamma1 = -4\<close> (no division by 4, and computed from the optical depth and the
  albedo), \<open>gamma2 = 1\<close>, \<open>gamma3\<close> with \<open>mu_0 = acos 0 = pi/2\<close> and the albedo in the
  place of \<open>g\<close>, and never writes \<open>gamma4\<close>; the formulas of the specification give
  \<open>5/4\<close>, \<open>1/4\<close>, \<open>1/2\<close> and \<open>1/2\<close>.
\<close>

theorem DeltaEddingtonApproximation_gamma_values:
  "params_values [''gamma1'', ''gamma2'', ''gamma3'', ''gamma4'']
     (DeltaEddingtonApproximation
        \<lparr>optical_depth = [2], single_scattering_albedo = [1 / 2], assymetry_parameter = [0]\<rparr>
        [''gamma1'' \<mapsto> [0], ''gamma2'' \<mapsto> [0], ''gamma3'' \<mapsto> [0], ''gamma4'' \<mapsto> [0],
         ''mu'' \<mapsto> [0]]
        [0])
   = Inr [Some [- 4], Some [1], Some [(2 - 3 * (1 / 2) * (pi / 2)) / 4], Some [0]]
   \<and> spec_gamma1 (1 / 2) 0 = 5 / 4 \<and> spec_gamma2 (1 / 2) 0 = 1 / 4
   \<and> spec_gamma3 0 (cos 0) = 1 / 2 \<and> spec_gamma4 0 (cos 0) = 1 / 2"
  by (simp add: params_values_def approximation_defs
      spec_gamma1_def spec_gamma2_def spec_gamma3_def spec_gamma4_def)

text \<open>
  Claim C9. Evaluation on one column with optical depth \<open>1/4\<close> and albedo 0, where
  \<open>gamma1 = 6\<close> and \<open>gamma2 = 0\<close>, so that the eigenvalue is 6 and the coupling ratio is 0.
  After lines 37 to 42 the one vector that \<open>lambda\<close>, \<open>Gamma\<close> and \<open>mu\<close> all name holds 6:
  \<open>Gamma\<close> was assigned the expression of \<open>lambda\<close>, into the same storage. After line 43
  it holds \<open>1/2\<close>. Nothing is ever stored under the keys \<open>"lambda"\<close> and \<open>"Gamma"\<close>.
\<close>

theorem DeltaEddingtonApproximation_lambda_Gamma_alias:
  "params_values [''mu'', ''lambda'', ''Gamma'']
     (DeltaEddingtonApproximation_coefficients
        \<lparr>optical_depth = [1 / 4], single_scattering_albedo = [0], assymetry_parameter = [0]\<rparr>
        [0] 0
        [''gamma1'' \<mapsto> [0], ''gamma2'' \<mapsto> [0], ''gamma3'' \<mapsto> [0], ''gamma4'' \<mapsto> [0],
         ''mu'' \<mapsto> [0], ''lambda'' \<mapsto> [0]])
   = Inr [Some [6], Some [0], None]
  \<and> params_values [''gamma1'', ''gamma2'', ''mu'', ''lambda'', ''Gamma'']
     (DeltaEddingtonApproximation
        \<lparr>optical_depth = [1 / 4], single_scattering_albedo = [0], assymetry_parameter = [0]\<rparr>
        [''gamma1'' \<mapsto> [0], ''gamma2'' \<mapsto> [0], ''gamma3'' \<mapsto> [0], ''gamma4'' \<mapsto> [0],
         ''mu'' \<mapsto> [0], ''lambda'' \<mapsto> [0]]
        [0])
   = Inr [Some [6], Some [0], Some [1 / 2], Some [0], None]
  \<and> spec_lambda 6 0 = 6 \<and> spec_Gamma 6 0 = 0"
  by (simp add: params_values_def approximation_defs spec_lambda_def spec_Gamma_def)

section \<open>The source terms of InitializeVariables\<close>

text \<open>
  Claim C4. Evaluation of \<open>InitializeVariables\<close> on one column with zenith angle 0 (so
  \<open>mu_0 = acos 0 = pi/2\<close>), optical depth 1, albedo \<open>1/2\<close> (scaled by the source to
  \<open>1/3\<close>), source flux 3, \<open>gamma1 = gamma2 = gamma3 = 1\<close>, \<open>gamma4 = 0\<close> and
  \<open>lambda = 0\<close>. The source stores \<open>C_downwelling = pi * exp (2/pi)\<close>: the exponent is
  \<open>-(0 - tau)/mu_0\<close>, there is no factor \<open>mu_0\<close>, and the result is not divided by
  \<open>lambda\<^sup>2 - 1/mu_0\<^sup>2\<close>. The formula of the specification, at the same scaled albedo,
  \<open>mu_0\<close> and cumulative optical depth 1, is negative here.
\<close>

theorem InitializeVariables_source_term_values:
  "source_term_values [''C_downwelling'']
     (InitializeVariables [0]
        [''altitude [m]'' \<mapsto> \<lparr>NumberOfColumns = 1\<rparr>, ''wavelength [m]'' \<mapsto> \<lparr>NumberOfColumns = 1\<rparr>]
        (Map.empty :: string \<rightharpoonup> unit) Map.empty
        [''infrared source flux'' \<mapsto> [0], ''solar source flux'' \<mapsto> [0], ''lambda'' \<mapsto> [0],
         ''gamma1'' \<mapsto> [1], ''gamma2'' \<mapsto> [1], ''gamma3'' \<mapsto> [1], ''gamma4'' \<mapsto> [0],
         ''mu'' \<mapsto> [1 / 2], ''source flux'' \<mapsto> [3]]
        [''C_upwelling'' \<mapsto> [0], ''C_downwelling'' \<mapsto> [0]]
        \<lparr>optical_depth = [1], single_scattering_albedo = [1 / 2], assymetry_parameter = [0]\<rparr>)
   = Inr [Some [pi * exp (2 / pi)]]
   \<and> 0 < pi * exp (2 / pi)
   \<and> spec_C_downwelling (spec_exp_term (1 / 3) (arccos 0) 3 1) 1 1 1 0 0 (arccos 0) < 0"
  by (simp add: source_term_values_def init_defs spec_C_downwelling_def spec_exp_term_def)

text \<open>
  The source terms do not depend on the eigenvalue at all: a run on the same input with
  another vector under \<open>"lambda"\<close> returns the same scaled optical properties, the same
  source terms and the same other parameters.
\<close>

lemma load_other_key:
  "k \<noteq> k' \<Longrightarrow> load (m(k' \<mapsto> l)) k i = load m k i"
  by (simp add: load_def at_key_def)

lemma load_same_key:
  "i < length l \<Longrightarrow> load (m(k \<mapsto> l)) k i = Inr (l ! i)"
  by (simp add: load_def at_key_def and_then_def elem_def)

lemma store_other_key:
  assumes "store m k i v = Inr m'" and "k \<noteq> k'"
  shows "store (m(k' \<mapsto> l)) k i v = Inr (m'(k' \<mapsto> l))"
  using assms
  by (auto simp: store_def at_key_def and_then_def assign_def fun_upd_twist
      split: option.splits if_splits)

lemma source_terms_step_lambda:
  assumes run: "source_terms_step sza st i (t, sp, src) = Inr (t', sp', src')"
    and l: "i < length l"
  shows "source_terms_step sza st i (t, sp(''lambda'' \<mapsto> l), src) =
           Inr (t', sp'(''lambda'' \<mapsto> l), src')"
proof -
  from run obtain zenith omega_i R tau_i lam sp1 R' sp2 g1 g2 g3 g4 src1 src2 where
    e1: "elem sza i = Inr zenith"
    and e2: "elem (single_scattering_albedo st) i = Inr omega_i"
    and R: "load sp ''source flux'' i = Inr R"
    and e3: "elem (optical_depth st) i = Inr tau_i"
    and lam: "load sp ''lambda'' i = Inr lam"
    and sp1: "store sp ''infrared source flux'' i
                (R * arccos zenith * exp (- (t + tau_i) / arccos zenith)) = Inr sp1"
    and R': "load sp1 ''source flux'' i = Inr R'"
    and sp2: "store sp1 ''solar source flux'' i (pi * R') = Inr sp2"
    and g1: "load sp2 ''gamma1'' i = Inr g1" and g2: "load sp2 ''gamma2'' i = Inr g2"
    and g3: "load sp2 ''gamma3'' i = Inr g3" and g4: "load sp2 ''gamma4'' i = Inr g4"
    and src1: "store src ''C_downwelling'' i
                 (omega_i * pi * R * exp (- (t - tau_i) / arccos zenith) *
                  (((g1 + 1) / arccos zenith) * g4 + g2 * g3)) = Inr src1"
    and src2: "store src1 ''C_upwelling'' i
                 (omega_i * pi * R * exp (- (t - tau_i) / arccos zenith) *
                  (((g1 - 1) / arccos zenith) * g3 + g4 * g2)) = Inr src2"
    and res: "(Inr (t + tau_i, sp2, src2) :: error + real \<times> (string \<rightharpoonup> vec) \<times> (string \<rightharpoonup> vec)) =
              Inr (t', sp', src')"
    unfolding source_terms_step_def prod.case Let_def
    by (elim and_thenE) blast
  from res have out: "t' = t + tau_i" "sp' = sp2" "src' = src2" by simp_all
  have R_l: "load (sp(''lambda'' \<mapsto> l)) ''source flux'' i = Inr R"
    using R by (simp add: load_other_key)
  have lam_l: "load (sp(''lambda'' \<mapsto> l)) ''lambda'' i = Inr (l ! i)"
    using l by (rule load_same_key)
  have sp1_l: "store (sp(''lambda'' \<mapsto> l)) ''infrared source flux'' i
                (R * arccos zenith * exp (- (t + tau_i) / arccos zenith)) =
               Inr (sp1(''lambda'' \<mapsto> l))"
    by (rule store_other_key [OF sp1]) simp
  have R'_l: "load (sp1(''lambda'' \<mapsto> l)) ''source flux'' i = Inr R'"
    using R' by (simp add: load_other_key)
  have sp2_l: "store (sp1(''lambda'' \<mapsto> l)) ''solar source flux'' i (pi * R') =
               Inr (sp2(''lambda'' \<mapsto> l))"
    by (rule store_other_key [OF sp2]) simp
  have g_l: "load (sp2(''lambda'' \<mapsto> l)) ''gamma1'' i = Inr g1"
    "load (sp2(''lambda'' \<mapsto> l)) ''gamma2'' i = Inr g2"
    "load (sp2(''lambda'' \<mapsto> l)) ''gamma3'' i = Inr g3"
    "load (sp2(''lambda'' \<mapsto> l)) ''gamma4'' i = Inr g4"
    using g1 g2 g3 g4 by (simp_all add: load_other_key)
  show ?thesis
    by (simp only: source_terms_step_def and_then_def Let_def prod.case sum.case
        e1 e2 e3 R_l lam_l sp1_l R'_l sp2_l g_l src1 src2 out)
qed

lemma InitializeVariables_lambda:
  assumes run: "InitializeVariables sza grids profiles solver sp src st = Inr (st', sp', src')"
    and l: "length sza \<le> length l"
  shows "InitializeVariables sza grids profiles solver (sp(''lambda'' \<mapsto> l)) src st =
           Inr (st', sp'(''lambda'' \<mapsto> l), src')"
proof -
  let ?n = "length sza"
  from run obtain vg wg where g: "at_key grids ''altitude [m]'' = Inr vg"
    "at_key grids ''wavelength [m]'' = Inr wg"
    unfolding InitializeVariables_def Let_def by (elim and_thenE) blast
  from run g have c: "NumberOfColumns vg = ?n" "NumberOfColumns wg = 1"
    unfolding InitializeVariables_def Let_def
    by (auto simp: and_then_def split: if_splits)
  from run g c obtain st1 a1 a2 b1 b2 b3 b4 b5 b6 b7 b8 b9 t'' where
    scaled: "for_each [0..<?n] delta_scaling st = Inr st1"
    and a: "at_key src ''C_upwelling'' = Inr a1" "at_key src ''C_downwelling'' = Inr a2"
    and b: "at_key sp ''infrared source flux'' = Inr b1" "at_key sp ''solar source flux'' = Inr b2"
      "at_key sp ''lambda'' = Inr b3"
      "at_key sp ''gamma1'' = Inr b4" "at_key sp ''gamma2'' = Inr b5"
      "at_key sp ''gamma3'' = Inr b6" "at_key sp ''gamma4'' = Inr b7" "at_key sp ''mu'' = Inr b8"
      "at_key sp ''source flux'' = Inr b9"
    and terms: "for_each [0..<?n] (source_terms_step sza st1) (0, sp, src) = Inr (t'', sp', src')"
    and st1: "st1 = st'"
    unfolding InitializeVariables_def Let_def
    by (simp only: and_then_def sum.case if_False simp_thms) (auto split: sum.splits)
  let ?f = "\<lambda>s :: real \<times> (string \<rightharpoonup> vec) \<times> (string \<rightharpoonup> vec).
              case s of (t, m, c) \<Rightarrow> (t, m(''lambda'' \<mapsto> l), c)"
  have "for_each [0..<?n] (source_terms_step sza st1) (?f (0, sp, src)) = Inr (?f (t'', sp', src'))"
  proof (rule for_each_related [OF terms])
    fix i s s'
    assume i: "i \<in> set [0..<?n]" and step: "source_terms_step sza st1 i s = Inr s'"
    obtain t m c where s: "s = (t, m, c)" by (cases s)
    obtain t2 m2 c2 where s': "s' = (t2, m2, c2)" by (cases s')
    from i l have "i < length l" by simp
    from source_terms_step_lambda [OF step [unfolded s s'] this]
    show "source_terms_step sza st1 i (?f s) = Inr (?f s')" by (simp add: s s')
  qed
  then have terms_l:
    "for_each [0..<?n] (source_terms_step sza st1) (0, sp(''lambda'' \<mapsto> l), src) =
      Inr (t'', sp'(''lambda'' \<mapsto> l), src')" by simp
  have b_l: "at_key (sp(''lambda'' \<mapsto> l)) ''infrared source flux'' = Inr b1"
    "at_key (sp(''lambda'' \<mapsto> l)) ''solar source flux'' = Inr b2"
    "at_key (sp(''lambda'' \<mapsto> l)) ''lambda'' = Inr l"
    "at_key (sp(''lambda'' \<mapsto> l)) ''gamma1'' = Inr b4"
    "at_key (sp(''lambda'' \<mapsto> l)) ''gamma2'' = Inr b5"
    "at_key (sp(''lambda'' \<mapsto> l)) ''gamma3'' = Inr b6"
    "at_key (sp(''lambda'' \<mapsto> l)) ''gamma4'' = Inr b7"
    "at_key (sp(''lambda'' \<mapsto> l)) ''mu'' = Inr b8"
    "at_key (sp(''lambda'' \<mapsto> l)) ''source flux'' = Inr b9"
    using b by (simp_all add: at_key_def)
  show ?thesis
    unfolding InitializeVariables_def Let_def
    by (simp add: and_then_def g c scaled [unfolded st1] a b_l terms_l [unfolded st1])
qed

text \<open>
  When \<open>InitializeVariables\<close> returns: the steps of its two loops succeed on every column
  for which all vectors have an entry.
\<close>

lemma has_vectors_at_key:
  "has_vectors n keys m \<Longrightarrow> k \<in> set keys \<Longrightarrow> \<exists>xs. at_key m k = Inr xs"
  by (auto simp: has_vectors_def at_key_def)

lemma has_vectors_load:
  "has_vectors n keys m \<Longrightarrow> k \<in> set keys \<Longrightarrow> i < n \<Longrightarrow> \<exists>v. load m k i = Inr v"
  by (fastforce simp: has_vectors_def load_def at_key_def and_then_def elem_def)

lemma has_vectors_store:
  assumes "has_vectors n keys m" and "k \<in> set keys" and "i < n"
  shows "\<exists>m'. store m k i v = Inr m' \<and> has_vectors n keys m'"
proof -
  from assms obtain xs where xs: "m k = Some xs" "n \<le> length xs"
    by (auto simp: has_vectors_def)
  with assms(3) have "store m k i v = Inr (m(k \<mapsto> xs[i := v]))"
    by (simp add: store_def at_key_def and_then_def assign_def)
  moreover have "has_vectors n keys (m(k \<mapsto> xs[i := v]))"
    using assms(1) xs by (auto simp: has_vectors_def)
  ultimately show ?thesis by blast
qed

lemma delta_scaling_total:
  assumes "i < n" and "n \<le> length (single_scattering_albedo st)"
    and "n \<le> length (assymetry_parameter st)"
  shows "\<exists>st'. delta_scaling i st = Inr st' \<and>
           length (single_scattering_albedo st') = length (single_scattering_albedo st) \<and>
           length (assymetry_parameter st') = length (assymetry_parameter st) \<and>
           optical_depth st' = optical_depth st"
  using assms by (simp add: delta_scaling_def and_then_def elem_def assign_def Let_def)

lemma source_terms_step_total:
  assumes i: "i < n" and z: "n \<le> length sza"
    and st: "n \<le> length (single_scattering_albedo st)" "n \<le> length (optical_depth st)"
    and sp: "has_vectors n solution_keys sp" and src: "has_vectors n source_keys src"
  shows "\<exists>t' sp' src'. source_terms_step sza st i (t, sp, src) = Inr (t', sp', src') \<and>
           has_vectors n solution_keys sp' \<and> has_vectors n source_keys src'"
proof -
  have e1: "elem sza i = Inr (sza ! i)"
    and e2: "elem (single_scattering_albedo st) i = Inr (single_scattering_albedo st ! i)"
    and e3: "elem (optical_depth st) i = Inr (optical_depth st ! i)"
    using i z st by (simp_all add: elem_def)
  obtain R where R: "load sp ''source flux'' i = Inr R"
    using has_vectors_load [OF sp _ i, of "''source flux''"] by (auto simp: solution_keys_def)
  obtain l where l: "load sp ''lambda'' i = Inr l"
    using has_vectors_load [OF sp _ i, of "''lambda''"] by (auto simp: solution_keys_def)
  obtain sp1 where sp1: "store sp ''infrared source flux'' i
      (R * arccos (sza ! i) * exp (- (t + optical_depth st ! i) / arccos (sza ! i))) = Inr sp1"
      and h1: "has_vectors n solution_keys sp1"
    using has_vectors_store [OF sp _ i, of "''infrared source flux''"]
    by (auto simp: solution_keys_def)
  obtain R' where R': "load sp1 ''source flux'' i = Inr R'"
    using has_vectors_load [OF h1 _ i, of "''source flux''"] by (auto simp: solution_keys_def)
  obtain sp2 where sp2: "store sp1 ''solar source flux'' i (pi * R') = Inr sp2"
      and h2: "has_vectors n solution_keys sp2"
    using has_vectors_store [OF h1 _ i, of "''solar source flux''"]
    by (auto simp: solution_keys_def)
  obtain g1 where g1: "load sp2 ''gamma1'' i = Inr g1"
    using has_vectors_load [OF h2 _ i, of "''gamma1''"] by (auto simp: solution_keys_def)
  obtain g2 where g2: "load sp2 ''gamma2'' i = Inr g2"
    using has_vectors_load [OF h2 _ i, of "''gamma2''"] by (auto simp: solution_keys_def)
  obtain g3 where g3: "load sp2 ''gamma3'' i = Inr g3"
    using has_vectors_load [OF h2 _ i, of "''gamma3''"] by (auto simp: solution_keys_def)
  obtain g4 where g4: "load sp2 ''gamma4'' i = Inr g4"
    using has_vectors_load [OF h2 _ i, of "''gamma4''"] by (auto simp: solution_keys_def)
  obtain src1 where src1: "store src ''C_downwelling'' i
      (single_scattering_albedo st ! i * pi * R *
         exp (- (t - optical_depth st ! i) / arccos (sza ! i)) *
       (((g1 + 1) / arccos (sza ! i)) * g4 + g2 * g3)) = Inr src1"
      and k1: "has_vectors n source_keys src1"
    using has_vectors_store [OF src _ i, of "''C_downwelling''"] by (auto simp: source_keys_def)
  obtain src2 where src2: "store src1 ''C_upwelling'' i
      (single_scattering_albedo st ! i * pi * R *
         exp (- (t - optical_depth st ! i) / arccos (sza ! i)) *
       (((g1 - 1) / arccos (sza ! i)) * g3 + g4 * g2)) = Inr src2"
      and k2: "has_vectors n source_keys src2"
    using has_vectors_store [OF k1 _ i, of "''C_upwelling''"] by (auto simp: source_keys_def)
  have "source_terms_step sza st i (t, sp, src) = Inr (t + optical_depth st ! i, sp2, src2)"
    by (simp only: source_terms_step_def and_then_def Let_def prod.case sum.case
        e1 e2 e3 R l sp1 R' sp2 g1 g2 g3 g4 src1 src2)
  with h2 k2 show ?thesis by blast
qed

lemma InitializeVariables_total:
  assumes g1: "grids ''altitude [m]'' = Some vertical_grid"
    and c1: "NumberOfColumns vertical_grid = length sza"
    and g2: "grids ''wavelength [m]'' = Some wavelength_grid"
    and c2: "NumberOfColumns wavelength_grid = 1"
    and sp: "has_vectors (length sza) solution_keys sp"
    and src: "has_vectors (length sza) source_keys src"
    and st: "length sza \<le> length (optical_depth st)"
      "length sza \<le> length (single_scattering_albedo st)"
      "length sza \<le> length (assymetry_parameter st)"
  shows "\<exists>st' sp' src'. InitializeVariables sza grids profiles solver sp src st = Inr (st', sp', src')"
proof -
  let ?n = "length sza"
  let ?P = "\<lambda>s :: radiator_state. ?n \<le> length (single_scattering_albedo s)
             \<and> ?n \<le> length (assymetry_parameter s) \<and> ?n \<le> length (optical_depth s)"
  have "\<exists>st'. for_each [0..<?n] delta_scaling st = Inr st' \<and> ?P st'"
  proof (rule for_each_total)
    show "?P st" using st by simp
  next
    fix i t
    assume "i \<in> set [0..<?n]" and "?P t"
    then show "\<exists>t'. delta_scaling i t = Inr t' \<and> ?P t'"
      using delta_scaling_total [of i ?n t] by auto
  qed
  then obtain st' where scaled: "for_each [0..<?n] delta_scaling st = Inr st'" and st': "?P st'"
    by blast
  let ?Q = "\<lambda>s :: real \<times> (string \<rightharpoonup> vec) \<times> (string \<rightharpoonup> vec). case s of (t, sp', src') \<Rightarrow>
              has_vectors ?n solution_keys sp' \<and> has_vectors ?n source_keys src'"
  have "\<exists>s'. for_each [0..<?n] (source_terms_step sza st') (0, sp, src) = Inr s' \<and> ?Q s'"
  proof (rule for_each_total)
    show "?Q (0, sp, src)" using sp src by simp
  next
    fix i s
    assume i: "i \<in> set [0..<?n]" and q: "?Q s"
    obtain t sp' src' where s: "s = (t, sp', src')" by (cases s)
    from i have "i < ?n" by simp
    from source_terms_step_total [OF this le_refl, of st' sp' src' t] st' q s
    show "\<exists>s'. source_terms_step sza st' i s = Inr s' \<and> ?Q s'" by auto
  qed
  then obtain t'' sp'' src'' where
    terms: "for_each [0..<?n] (source_terms_step sza st') (0, sp, src) = Inr (t'', sp'', src'')"
    by auto
  have keys: "\<And>k. k \<in> set solution_keys \<Longrightarrow> \<exists>xs. at_key sp k = Inr xs"
    "\<And>k. k \<in> set source_keys \<Longrightarrow> \<exists>xs. at_key src k = Inr xs"
    using has_vectors_at_key [OF sp] has_vectors_at_key [OF src] by blast+
  obtain a1 a2 where a: "at_key src ''C_upwelling'' = Inr a1" "at_key src ''C_downwelling'' = Inr a2"
    using keys(2) [of "''C_upwelling''"] keys(2) [of "''C_downwelling''"]
    by (auto simp: source_keys_def)
  obtain b1 b2 b3 b4 b5 b6 b7 b8 b9 where b:
    "at_key sp ''infrared source flux'' = Inr b1" "at_key sp ''solar source flux'' = Inr b2"
    "at_key sp ''lambda'' = Inr b3" "at_key sp ''gamma1'' = Inr b4" "at_key sp ''gamma2'' = Inr b5"
    "at_key sp ''gamma3'' = Inr b6" "at_key sp ''gamma4'' = Inr b7" "at_key sp ''mu'' = Inr b8"
    "at_key sp ''source flux'' = Inr b9"
    using keys(1) [of "''infrared source flux''"] keys(1) [of "''solar source flux''"]
      keys(1) [of "''lambda''"] keys(1) [of "''gamma1''"] keys(1) [of "''gamma2''"]
      keys(1) [of "''gamma3''"] keys(1) [of "''gamma4''"] keys(1) [of "''mu''"]
      keys(1) [of "''source flux''"]
    by (auto simp: solution_keys_def)
  have "InitializeVariables sza grids profiles solver sp src st = Inr (st', sp'', src'')"
    unfolding InitializeVariables_def Let_def
    by (simp add: and_then_def at_key_def [of grids] g1 g2 c1 c2 scaled a b terms)
  then show ?thesis by blast
qed

lemma ComputeRadiationField_integers:
  assumes "ComputeRadiationField sza grids profiles a field = Inr out"
  shows "set (direct (spectral_irradiance out)) \<subseteq> \<int> \<and>
         set (upwelling (spectral_irradiance out)) \<subseteq> \<int> \<and>
         set (downwelling (spectral_irradiance out)) \<subseteq> \<int> \<and>
         set (direct (actinic_flux out)) \<subseteq> \<int> \<and>
         set (upwelling (actinic_flux out)) \<subseteq> \<int> \<and>
         set (downwelling (actinic_flux out)) \<subseteq> \<int>"
  by (simp add: ComputeRadiationField_Inr [OF assms] consecutive_integers_Ints)

text \<open>
  The source has no guard on the denominator. On one column with zenith angle 0 and
  \<open>lambda = 2/pi\<close> the denominator \<open>lambda\<^sup>2 - 1/mu_0\<^sup>2\<close> is exactly zero, and
  \<open>InitializeVariables\<close> returns source terms and no error.
\<close>

theorem InitializeVariables_zero_denominator_completes:
  "(2 / pi) * (2 / pi) - 1 / (arccos 0 * arccos 0) = 0 \<and>
   source_term_values [''C_downwelling'', ''C_upwelling'']
     (InitializeVariables [0]
        [''altitude [m]'' \<mapsto> \<lparr>NumberOfColumns = 1\<rparr>, ''wavelength [m]'' \<mapsto> \<lparr>NumberOfColumns = 1\<rparr>]
        (Map.empty :: string \<rightharpoonup> unit) Map.empty
        [''infrared source flux'' \<mapsto> [0], ''solar source flux'' \<mapsto> [0], ''lambda'' \<mapsto> [2 / pi],
         ''gamma1'' \<mapsto> [1], ''gamma2'' \<mapsto> [1], ''gamma3'' \<mapsto> [1], ''gamma4'' \<mapsto> [0],
         ''mu'' \<mapsto> [1 / 2], ''source flux'' \<mapsto> [3]]
        [''C_upwelling'' \<mapsto> [0], ''C_downwelling'' \<mapsto> [0]]
        \<lparr>optical_depth = [1], single_scattering_albedo = [1 / 2], assymetry_parameter = [0]\<rparr>)
   = Inr [Some [pi * exp (2 / pi)], Some [0]]"
  by (simp add: source_term_values_def init_defs)

text \<open>
  Claim C5, as amended. \<open>InitializeVariables\<close> has no guard on the denominator and signals
  no error on its account: whenever both grids are present with the asserted column counts,
  every named parameter and source-term vector is present with an entry for each column,
  and the optical-property arrays have an entry for each column, it returns normally,
  whatever the values of \<open>lambda\<close> and of the zenith angles are, hence also when
  \<open>lambda\<^sup>2 - 1/mu_0\<^sup>2\<close> is zero or close to zero. The radiation field is written by
  \<open>ComputeRadiationField\<close> alone, and every value it writes is an integer.
\<close>

theorem InitializeVariables_no_denominator_guard:
  assumes "grids ''altitude [m]'' = Some vertical_grid"
    and "NumberOfColumns vertical_grid = length sza"
    and "grids ''wavelength [m]'' = Some wavelength_grid"
    and "NumberOfColumns wavelength_grid = 1"
    and "has_vectors (length sza) solution_keys sp"
    and "has_vectors (length sza) source_keys src"
    and "length sza \<le> length (optical_depth st)"
    and "length sza \<le> length (single_scattering_albedo st)"
    and "length sza \<le> length (assymetry_parameter st)"
  shows "(\<exists>st' sp' src'.
            InitializeVariables sza grids profiles solver sp src st = Inr (st', sp', src'))
       \<and> (\<forall>out. ComputeRadiationField sza grids profiles a field = Inr out \<longrightarrow>
            set (direct (spectral_irradiance out)) \<subseteq> \<int> \<and>
            set (upwelling (spectral_irradiance out)) \<subseteq> \<int> \<and>
            set (downwelling (spectral_irradiance out)) \<subseteq> \<int> \<and>
            set (direct (actinic_flux out)) \<subseteq> \<int> \<and>
            set (upwelling (actinic_flux out)) \<subseteq> \<int> \<and>
            set (downwelling (actinic_flux out)) \<subseteq> \<int>)"
proof (intro conjI allI impI)
  show "\<exists>st' sp' src'.
          InitializeVariables sza grids profiles solver sp src st = Inr (st', sp', src')"
    by (rule InitializeVariables_total [OF assms])
next
  fix out
  assume "ComputeRadiationField sza grids profiles a field = Inr out"
  from ComputeRadiationField_integers [OF this]
  show "set (direct (spectral_irradiance out)) \<subseteq> \<int>"
    and "set (upwelling (spectral_irradiance out)) \<subseteq> \<int>"
    and "set (downwelling (spectral_irradiance out)) \<subseteq> \<int>"
    and "set (direct (actinic_flux out)) \<subseteq> \<int>"
    and "set (upwelling (actinic_flux out)) \<subseteq> \<int>"
    and "set (downwelling (actinic_flux out)) \<subseteq> \<int>"
    by simp_all
qed

text \<open>
  The hypotheses hold for the one-column input with the zero denominator: the call
  returns, and the field of two entries per array receives integers.
\<close>

theorem InitializeVariables_no_denominator_guard_witness:
  "(\<exists>st' sp' src'.
      InitializeVariables [0]
        [''altitude [m]'' \<mapsto> \<lparr>NumberOfColumns = 1\<rparr>, ''wavelength [m]'' \<mapsto> \<lparr>NumberOfColumns = 1\<rparr>]
        (Map.empty :: string \<rightharpoonup> unit) Map.empty
        [''infrared source flux'' \<mapsto> [0], ''solar source flux'' \<mapsto> [0], ''lambda'' \<mapsto> [2 / pi],
         ''gamma1'' \<mapsto> [1], ''gamma2'' \<mapsto> [1], ''gamma3'' \<mapsto> [1], ''gamma4'' \<mapsto> [0],
         ''mu'' \<mapsto> [1 / 2], ''source flux'' \<mapsto> [3]]
        [''C_upwelling'' \<mapsto> [0], ''C_downwelling'' \<mapsto> [0]]
        \<lparr>optical_depth = [1], single_scattering_albedo = [1 / 2], assymetry_parameter = [0]\<rparr>
      = Inr (st', sp', src'))
   \<and> set [42, 43 :: real] \<subseteq> \<int> \<and> set [93, 94 :: real] \<subseteq> \<int> \<and> set [52, 53 :: real] \<subseteq> \<int>
   \<and> set [5, 6 :: real] \<subseteq> \<int> \<and> set [24, 25 :: real] \<subseteq> \<int> \<and> set [97, 98 :: real] \<subseteq> \<int>"
proof -
  have field: "ComputeRadiationField [0]
        [''altitude [m]'' \<mapsto> \<lparr>NumberOfColumns = 1\<rparr>, ''wavelength [m]'' \<mapsto> \<lparr>NumberOfColumns = 1\<rparr>]
        (Map.empty :: string \<rightharpoonup> unit) [[1 / 2]]
        \<lparr>spectral_irradiance = \<lparr>direct = [0, 0], upwelling = [0, 0], downwelling = [0, 0]\<rparr>,
         actinic_flux = \<lparr>direct = [0, 0], upwelling = [0, 0], downwelling = [0, 0]\<rparr>\<rparr>
      = Inr \<lparr>spectral_irradiance =
               \<lparr>direct = [42, 43], upwelling = [93, 94], downwelling = [52, 53]\<rparr>,
             actinic_flux = \<lparr>direct = [5, 6], upwelling = [24, 25], downwelling = [97, 98]\<rparr>\<rparr>"
    by (simp add: ComputeRadiationField_def and_then_def)
  note guard = InitializeVariables_no_denominator_guard
    [where sza = "[0]" and vertical_grid = "\<lparr>NumberOfColumns = 1\<rparr>"
       and wavelength_grid = "\<lparr>NumberOfColumns = 1\<rparr>"
       and grids = "[''altitude [m]'' \<mapsto> \<lparr>NumberOfColumns = 1\<rparr>,
                    ''wavelength [m]'' \<mapsto> \<lparr>NumberOfColumns = 1\<rparr>]"
       and sp = "[''infrared source flux'' \<mapsto> [0], ''solar source flux'' \<mapsto> [0],
                 ''lambda'' \<mapsto> [2 / pi], ''gamma1'' \<mapsto> [1], ''gamma2'' \<mapsto> [1],
                 ''gamma3'' \<mapsto> [1], ''gamma4'' \<mapsto> [0], ''mu'' \<mapsto> [1 / 2],
                 ''source flux'' \<mapsto> [3]]"
       and src = "[''C_upwelling'' \<mapsto> [0], ''C_downwelling'' \<mapsto> [0]]"
       and st = "\<lparr>optical_depth = [1], single_scattering_albedo = [1 / 2],
                  assymetry_parameter = [0]\<rparr>"
       and profiles = "Map.empty :: string \<rightharpoonup> unit"
       and solver = Map.empty and a = "[[1 / 2]]"
       and field = "\<lparr>spectral_irradiance =
                        \<lparr>direct = [0, 0], upwelling = [0, 0], downwelling = [0, 0]\<rparr>,
                      actinic_flux =
                        \<lparr>direct = [0, 0], upwelling = [0, 0], downwelling = [0, 0]\<rparr>\<rparr>"]
  have both: "(\<exists>st' sp' src'.
      InitializeVariables [0]
        [''altitude [m]'' \<mapsto> \<lparr>NumberOfColumns = 1\<rparr>, ''wavelength [m]'' \<mapsto> \<lparr>NumberOfColumns = 1\<rparr>]
        (Map.empty :: string \<rightharpoonup> unit) Map.empty
        [''infrared source flux'' \<mapsto> [0], ''solar source flux'' \<mapsto> [0], ''lambda'' \<mapsto> [2 / pi],
         ''gamma1'' \<mapsto> [1], ''gamma2'' \<mapsto> [1], ''gamma3'' \<mapsto> [1], ''gamma4'' \<mapsto> [0],
         ''mu'' \<mapsto> [1 / 2], ''source flux'' \<mapsto> [3]]
        [''C_upwelling'' \<mapsto> [0], ''C_downwelling'' \<mapsto> [0]]
        \<lparr>optical_depth = [1], single_scattering_albedo = [1 / 2], assymetry_parameter = [0]\<rparr>
      = Inr (st', sp', src'))
    \<and> (\<forall>out. ComputeRadiationField [0]
        [''altitude [m]'' \<mapsto> \<lparr>NumberOfColumns = 1\<rparr>, ''wavelength [m]'' \<mapsto> \<lparr>NumberOfColumns = 1\<rparr>]
        (Map.empty :: string \<rightharpoonup> unit) [[1 / 2]]
        \<lparr>spectral_irradiance = \<lparr>direct = [0, 0], upwelling = [0, 0], downwelling = [0, 0]\<rparr>,
         actinic_flux = \<lparr>direct = [0, 0], upwelling = [0, 0], downwelling = [0, 0]\<rparr>\<rparr> = Inr out \<longrightarrow>
            set (direct (spectral_irradiance out)) \<subseteq> \<int> \<and>
            set (upwelling (spectral_irradiance out)) \<subseteq> \<int> \<and>
            set (downwelling (spectral_irradiance out)) \<subseteq> \<int> \<and>
            set (direct (actinic_flux out)) \<subseteq> \<int> \<and>
            set (upwelling (actinic_flux out)) \<subseteq> \<int> \<and>
            set (downwelling (actinic_flux out)) \<subseteq> \<int>)"
    by (rule guard) (simp_all add: has_vectors_def solution_keys_def source_keys_def)
  from conjunct2 [OF both, rule_format, OF field] conjunct1 [OF both]
  show ?thesis by simp
qed

section \<open>The tridiagonal system\<close>

lemma assign_keeps:
  "assign xs n v = Inr ys \<Longrightarrow> length ys = length xs \<and> (0 < n \<longrightarrow> ys ! 0 = xs ! 0)"
  by (auto simp: assign_def split: if_splits)

lemma set_back_keeps:
  "set_back xs v = Inr ys \<Longrightarrow> 2 \<le> length xs \<Longrightarrow> length ys = length xs \<and> ys ! 0 = xs ! 0"
  by (auto simp: set_back_def assign_def split: if_splits)

lemma same_top_row_refl: "same_top_row m m"
  by (simp add: same_top_row_def)

lemma same_top_row_trans: "same_top_row a b \<Longrightarrow> same_top_row b c \<Longrightarrow> same_top_row a c"
  by (simp add: same_top_row_def)

lemma odd_row_same_top:
  assumes "odd_row e1 e2 e3 e4 n m = Inr m'" and "0 < n"
  shows "same_top_row m m'"
  using assms unfolding odd_row_def
  by (auto elim!: and_thenE dest!: assign_keeps simp: same_top_row_def)

lemma even_row_same_top:
  assumes "even_row e1 e2 e3 e4 n m = Inr m'" and "0 < n"
  shows "same_top_row m m'"
  using assms unfolding even_row_def
  by (auto elim!: and_thenE dest!: assign_keeps simp: same_top_row_def)

lemma first_row_top:
  assumes "first_row e1 e2 m = Inr m'"
  shows "e1 \<noteq> [] \<and> e2 \<noteq> [] \<and>
         length (upper_diagonal m') = length (upper_diagonal m) \<and>
         length (main_diagonal m') = length (main_diagonal m) \<and>
         length (lower_diagonal m') = length (lower_diagonal m) \<and>
         upper_diagonal m' ! 0 = 0 \<and> main_diagonal m' ! 0 = e1 ! 0 \<and>
         lower_diagonal m' ! 0 = - (e2 ! 0)"
  using assms unfolding first_row_def
  by (auto elim!: and_thenE simp: set_front_def front_elem_def assign_def elem_def split: if_splits)

lemma last_row_same_top:
  assumes "last_row e1 e2 e3 e4 R_sfc m = Inr m'"
    and "2 \<le> length (upper_diagonal m)" "2 \<le> length (main_diagonal m)"
    "2 \<le> length (lower_diagonal m)"
  shows "same_top_row m m'"
  using assms unfolding last_row_def
  by (auto elim!: and_thenE dest!: set_back_keeps simp: same_top_row_def)

lemma AssembleTridiagonalMatrix_top:
  assumes run: "AssembleTridiagonalMatrix number_of_layers sp solver m = Inr m'"
    and len: "2 \<le> length (upper_diagonal m)" "2 \<le> length (main_diagonal m)"
      "2 \<le> length (lower_diagonal m)"
  shows "\<exists>e1 e2. sp ''e1'' = Some e1 \<and> sp ''e2'' = Some e2 \<and> e1 \<noteq> [] \<and> e2 \<noteq> [] \<and>
           upper_diagonal m' ! 0 = 0 \<and> main_diagonal m' ! 0 = e1 ! 0 \<and>
           lower_diagonal m' ! 0 = - (e2 ! 0)"
proof -
  from run obtain e1 e2 e3 e4 R_sfc m1 m2 m3 where
    k1: "at_key sp ''e1'' = Inr e1" and k2: "at_key sp ''e2'' = Inr e2"
    and r1: "first_row e1 e2 m = Inr m1"
    and r2: "stride_loop 1 (size_t_sub (size_t_mul 2 number_of_layers) 1)
               (odd_row e1 e2 e3 e4) m1 = Inr m2"
    and r3: "stride_loop 2 (size_t_sub (size_t_mul 2 number_of_layers) 2)
               (even_row e1 e2 e3 e4) m2 = Inr m3"
    and r4: "last_row e1 e2 e3 e4 R_sfc m3 = Inr m'"
    unfolding AssembleTridiagonalMatrix_def Let_def by (elim and_thenE) blast
  have s1: "sp ''e1'' = Some e1" and s2: "sp ''e2'' = Some e2"
    using k1 k2 by (auto simp: at_key_def split: option.splits)
  note f = first_row_top [OF r1]
  have t2: "same_top_row m1 m2"
  proof (rule stride_loop_invariant [OF r2, where P = "same_top_row m1"])
    show "same_top_row m1 m1" by (rule same_top_row_refl)
  next
    fix n t t'
    assume n: "1 \<le> n" and t: "same_top_row m1 t" and step: "odd_row e1 e2 e3 e4 n t = Inr t'"
    from n have "0 < n" by simp
    from t odd_row_same_top [OF step this] show "same_top_row m1 t'"
      by (rule same_top_row_trans)
  qed
  have t3: "same_top_row m2 m3"
  proof (rule stride_loop_invariant [OF r3, where P = "same_top_row m2"])
    show "same_top_row m2 m2" by (rule same_top_row_refl)
  next
    fix n t t'
    assume n: "2 \<le> n" and t: "same_top_row m2 t" and step: "even_row e1 e2 e3 e4 n t = Inr t'"
    from n have "0 < n" by simp
    from t even_row_same_top [OF step this] show "same_top_row m2 t'"
      by (rule same_top_row_trans)
  qed
  have t13: "same_top_row m1 m3" by (rule same_top_row_trans [OF t2 t3])
  have t4: "same_top_row m3 m'"
    using last_row_same_top [OF r4] f t13 len by (simp add: same_top_row_def)
  have "same_top_row m1 m'" by (rule same_top_row_trans [OF t13 t4])
  with f s1 s2 show ?thesis by (simp add: same_top_row_def)
qed

lemma rhs_odd_row_keeps:
  "rhs_odd_row start e1 e3 cu cd n v = Inr v' \<Longrightarrow> 0 < n \<Longrightarrow>
     length v' = length v \<and> v' ! 0 = v ! 0"
  unfolding rhs_odd_row_def by (auto elim!: and_thenE dest!: assign_keeps)

lemma rhs_even_row_keeps:
  "rhs_even_row start e2 e4 cu cd n v = Inr v' \<Longrightarrow> 0 < n \<Longrightarrow>
     length v' = length v \<and> v' ! 0 = v ! 0"
  unfolding rhs_even_row_def by (auto elim!: and_thenE dest!: assign_keeps)

lemma AssembleCoeffcientVector_top:
  assumes run: "AssembleCoeffcientVector start number_of_layers sp src solver b = Inr b'"
  shows "\<exists>f_0 C_downwelling. solver ''source flux'' = Some f_0 \<and>
           src ''C_downwelling'' = Some C_downwelling \<and> C_downwelling \<noteq> [] \<and>
           b' \<noteq> [] \<and> b' ! 0 = f_0 - C_downwelling ! 0"
proof -
  from run obtain e1 e2 e3 e4 f_0 cu cd down_front v1 v2 where
    k1: "at_key solver ''source flux'' = Inr f_0" and k2: "at_key src ''C_downwelling'' = Inr cd"
    and d: "front_elem cd = Inr down_front"
    and r1: "set_front b (f_0 - down_front) = Inr v1"
    and r2: "stride_loop 1 (size_t_sub (size_t_mul 2 number_of_layers) 1)
               (rhs_odd_row start e1 e3 cu cd) v1 = Inr v2"
    and r3: "stride_loop 2 (size_t_sub (size_t_mul 2 number_of_layers) 2)
               (rhs_even_row start e2 e4 cu cd) v2 = Inr b'"
    unfolding AssembleCoeffcientVector_def Let_def by (elim and_thenE) blast
  have s1: "solver ''source flux'' = Some f_0" and s2: "src ''C_downwelling'' = Some cd"
    using k1 k2 by (auto simp: at_key_def split: option.splits)
  have d': "cd \<noteq> [] \<and> down_front = cd ! 0"
    using d by (auto simp: front_elem_def elem_def split: if_splits)
  let ?P = "\<lambda>v :: vec. v \<noteq> [] \<and> length v = length b \<and> v ! 0 = f_0 - down_front"
  have v1: "?P v1"
    using r1 by (auto simp: set_front_def assign_def split: if_splits)
  have v2: "?P v2"
    by (rule stride_loop_invariant [OF r2, where P = ?P])
      (use v1 in \<open>auto dest!: rhs_odd_row_keeps\<close>)
  have v3: "?P b'"
    by (rule stride_loop_invariant [OF r3, where P = ?P])
      (use v2 in \<open>auto dest!: rhs_even_row_keeps\<close>)
  from s1 s2 d' v3 show ?thesis by auto
qed

lemma AssembleTridiagonalMatrix_example:
  "AssembleTridiagonalMatrix 2
      [''e1'' \<mapsto> [1, 2, 3, 4], ''e2'' \<mapsto> [5, 6, 7, 8], ''e3'' \<mapsto> [9, 10, 11, 12],
       ''e4'' \<mapsto> [13, 14, 15, 16]]
      [''Surface Reflectivity'' \<mapsto> 1 / 2, ''source flux'' \<mapsto> 1]
      \<lparr>upper_diagonal = [0, 0, 0, 0], main_diagonal = [0, 0, 0, 0],
       lower_diagonal = [0, 0, 0, 0]\<rparr>
   = Inr \<lparr>upper_diagonal = [0, - 136, 0, 0], main_diagonal = [1, - 108, 0, 0],
          lower_diagonal = [- 5, 129, 0, - 2]\<rparr>"
  by (simp add: assemble_defs)

lemma AssembleCoeffcientVector_example:
  "AssembleCoeffcientVector front_elem 2
      [''e1'' \<mapsto> [1, 2, 3, 4], ''e2'' \<mapsto> [5, 6, 7, 8], ''e3'' \<mapsto> [9, 10, 11, 12],
       ''e4'' \<mapsto> [13, 14, 15, 16]]
      [''C_upwelling'' \<mapsto> [1, 3, 5, 7], ''C_downwelling'' \<mapsto> [2, 4, 6, 8]]
      [''Surface Reflectivity'' \<mapsto> 1 / 2, ''source flux'' \<mapsto> 1]
      [0, 0, 0, 0]
   = Inr [- 1, - 16, 0, 0]"
  by (simp add: assemble_defs)

lemma size_t_sub_small:
  assumes le: "b \<le> a" and lt: "a < 2 ^ 64"
  shows "size_t_sub a b = a - b"
proof -
  define M :: nat where "M = 2 ^ 64"
  have a: "a mod M = a" and b: "b mod M = b" using le lt by (simp_all add: M_def)
  have "a + M - b = (a - b) + M" using le by simp
  then have "(a + M - b) mod M = (a - b) mod M" by (simp only: mod_add_self2)
  also have "\<dots> = a - b" using lt by (simp add: M_def less_imp_diff_less)
  finally show ?thesis unfolding size_t_sub_def M_def [symmetric] a b .
qed

lemma size_t_mul_small: "a * b < 2 ^ 64 \<Longrightarrow> size_t_mul a b = a * b"
  by (simp add: size_t_mul_def)

lemma assign_other:
  "assign xs n v = Inr ys \<Longrightarrow> length ys = length xs \<and> (n \<noteq> k \<longrightarrow> ys ! k = xs ! k)"
  by (auto simp: assign_def split: if_splits)

lemma rhs_odd_row_other:
  "rhs_odd_row start e1 e3 cu cd n v = Inr v' \<Longrightarrow> n \<noteq> k \<Longrightarrow>
     length v' = length v \<and> v' ! k = v ! k"
  unfolding rhs_odd_row_def by (auto elim!: and_thenE dest!: assign_other [where k = k])

lemma rhs_even_row_other:
  "rhs_even_row start e2 e4 cu cd n v = Inr v' \<Longrightarrow> n \<noteq> k \<Longrightarrow>
     length v' = length v \<and> v' ! k = v ! k"
  unfolding rhs_even_row_def by (auto elim!: and_thenE dest!: assign_other [where k = k])

lemma AssembleCoeffcientVector_keeps_last:
  assumes run: "AssembleCoeffcientVector start number_of_layers sp src solver b = Inr b'"
    and len: "length b = 2 * number_of_layers"
    and n1: "1 \<le> number_of_layers" and n2: "2 * number_of_layers < 2 ^ 64"
  shows "length b' = length b \<and> b' ! (2 * number_of_layers - 1) = b ! (2 * number_of_layers - 1)"
proof -
  let ?k = "2 * number_of_layers - 1"
  from run obtain e1 e2 e3 e4 f_0 cu cd down_front v1 v2 where
    r1: "set_front b (f_0 - down_front) = Inr v1"
    and r2: "stride_loop 1 (size_t_sub (size_t_mul 2 number_of_layers) 1)
               (rhs_odd_row start e1 e3 cu cd) v1 = Inr v2"
    and r3: "stride_loop 2 (size_t_sub (size_t_mul 2 number_of_layers) 2)
               (rhs_even_row start e2 e4 cu cd) v2 = Inr b'"
    unfolding AssembleCoeffcientVector_def Let_def by (elim and_thenE) blast
  have m: "size_t_mul 2 number_of_layers = 2 * number_of_layers"
    using n2 by (rule size_t_mul_small)
  have b1: "size_t_sub (size_t_mul 2 number_of_layers) 1 = 2 * number_of_layers - 1"
    unfolding m by (rule size_t_sub_small) (use n1 n2 in simp_all)
  have b2: "size_t_sub (size_t_mul 2 number_of_layers) 2 = 2 * number_of_layers - 2"
    unfolding m by (rule size_t_sub_small) (use n1 n2 in simp_all)
  let ?P = "\<lambda>v :: vec. length v = length b \<and> v ! ?k = b ! ?k"
  have v1: "?P v1"
    using r1 n1 by (auto simp: set_front_def dest!: assign_other [where k = ?k])
  have v2: "?P v2"
  proof (rule stride_loop_invariant [OF r2, where P = ?P])
    show "?P v1" by (rule v1)
  next
    fix n t t'
    assume "n < size_t_sub (size_t_mul 2 number_of_layers) 1" and t: "?P t"
      and step: "rhs_odd_row start e1 e3 cu cd n t = Inr t'"
    then have "n \<noteq> ?k" unfolding b1 by simp
    from rhs_odd_row_other [OF step this] t show "?P t'" by simp
  qed
  have v3: "?P b'"
  proof (rule stride_loop_invariant [OF r3, where P = ?P])
    show "?P v2" by (rule v2)
  next
    fix n t t'
    assume "n < size_t_sub (size_t_mul 2 number_of_layers) 2" and t: "?P t"
      and step: "rhs_even_row start e2 e4 cu cd n t = Inr t'"
    then have "n \<noteq> ?k" unfolding b2 by simp
    from rhs_even_row_other [OF step this] t show "?P t'" by simp
  qed
  then show ?thesis by simp
qed

lemma same_top_row_shape: "same_top_row m m' \<Longrightarrow> same_shape m m'"
  by (simp add: same_top_row_def same_shape_def)

lemma same_shape_trans: "same_shape a b \<Longrightarrow> same_shape b c \<Longrightarrow> same_shape a c"
  by (simp add: same_shape_def)

lemma set_back_length: "set_back xs v = Inr ys \<Longrightarrow> length ys = length xs"
  by (auto simp: set_back_def assign_def split: if_splits)

lemma last_row_same_shape:
  assumes "last_row e1 e2 e3 e4 R_sfc m = Inr m'"
  shows "same_shape m m'"
  using assms unfolding last_row_def
  by (auto elim!: and_thenE dest!: set_back_length simp: same_shape_def)

lemma AssembleTridiagonalMatrix_keeps_rows:
  assumes run: "AssembleTridiagonalMatrix number_of_layers sp solver m = Inr m'"
  shows "same_shape m m'"
proof -
  from run obtain e1 e2 e3 e4 R_sfc m1 m2 m3 where
    r1: "first_row e1 e2 m = Inr m1"
    and r2: "stride_loop 1 (size_t_sub (size_t_mul 2 number_of_layers) 1)
               (odd_row e1 e2 e3 e4) m1 = Inr m2"
    and r3: "stride_loop 2 (size_t_sub (size_t_mul 2 number_of_layers) 2)
               (even_row e1 e2 e3 e4) m2 = Inr m3"
    and r4: "last_row e1 e2 e3 e4 R_sfc m3 = Inr m'"
    unfolding AssembleTridiagonalMatrix_def Let_def by (elim and_thenE) blast
  have s1: "same_shape m m1" using first_row_top [OF r1] by (simp add: same_shape_def)
  have s2: "same_shape m m2"
  proof (rule stride_loop_invariant [OF r2, where P = "same_shape m"])
    show "same_shape m m1" by (rule s1)
  next
    fix n t t'
    assume n: "1 \<le> n" and t: "same_shape m t" and step: "odd_row e1 e2 e3 e4 n t = Inr t'"
    from n have "0 < n" by simp
    from t same_top_row_shape [OF odd_row_same_top [OF step this]] show "same_shape m t'"
      by (rule same_shape_trans)
  qed
  have s3: "same_shape m m3"
  proof (rule stride_loop_invariant [OF r3, where P = "same_shape m"])
    show "same_shape m m2" by (rule s2)
  next
    fix n t t'
    assume n: "2 \<le> n" and t: "same_shape m t" and step: "even_row e1 e2 e3 e4 n t = Inr t'"
    from n have "0 < n" by simp
    from t same_top_row_shape [OF even_row_same_top [OF step this]] show "same_shape m t'"
      by (rule same_shape_trans)
  qed
  from s3 last_row_same_shape [OF r4] show ?thesis by (rule same_shape_trans)
qed

lemma Solve_rows:
  assumes "AssembleTridiagonalMatrix number_of_layers sp solver (Solve_coeffcient_matrix sza) = Inr m'"
  shows "length (upper_diagonal m') = length sza \<and> length (main_diagonal m') = length sza \<and>
         length (lower_diagonal m') = length sza"
  using AssembleTridiagonalMatrix_keeps_rows [OF assms]
  by (simp add: same_shape_def Solve_coeffcient_matrix_def TridiagonalMatrix_def Let_def)

text \<open>
  Claim C6. \<open>Solve\<close> allocates the system from the number of columns, and
  \<open>AssembleTridiagonalMatrix\<close> writes into the diagonals it is given without resizing them
  (\<open>Solve_rows\<close>: whenever it returns, every diagonal has as many entries as there are
  columns, for any number of layers). For one layer the specification asks for two rows;
  the assembled system has three rows for three columns and one row for one column. In the
  last row the upper diagonal is 0 and the lower diagonal holds the surface combination
  \<open>e1 - R_sfc * e3\<close>, here 1.
\<close>

theorem Solve_system_rows_follow_columns:
  "AssembleTridiagonalMatrix 1
      [''e1'' \<mapsto> [2, 3], ''e2'' \<mapsto> [3, 5], ''e3'' \<mapsto> [5, 4], ''e4'' \<mapsto> [7, 8]]
      [''Surface Reflectivity'' \<mapsto> 1 / 2, ''source flux'' \<mapsto> 1]
      (Solve_coeffcient_matrix [0, 0, 0])
   = Inr \<lparr>upper_diagonal = [0, 0, 0], main_diagonal = [2, 0, 1], lower_diagonal = [- 3, 0, 1]\<rparr>
   \<and> AssembleTridiagonalMatrix 1
      [''e1'' \<mapsto> [2, 3], ''e2'' \<mapsto> [3, 5], ''e3'' \<mapsto> [5, 4], ''e4'' \<mapsto> [7, 8]]
      [''Surface Reflectivity'' \<mapsto> 1 / 2, ''source flux'' \<mapsto> 1]
      (Solve_coeffcient_matrix [0])
   = Inr \<lparr>upper_diagonal = [0], main_diagonal = [1], lower_diagonal = [1]\<rparr>"
  by (simp add: assemble_defs)

text \<open>
  Claim C7. For two layers and a right-hand side of four entries 9, the last row of the
  matrix is assembled (lower diagonal \<open>e1 - R_sfc * e3 = -2\<close>, main diagonal
  \<open>e2 - R_sfc * e4 = 0\<close>, upper diagonal 0), but \<open>AssembleCoeffcientVector\<close> assigns nothing
  after its \<open>last row\<close> comment: the last entry of the right-hand side is still the 9 it
  was given. This is so for every right-hand side of \<open>2 * N\<close> entries
  (\<open>AssembleCoeffcientVector_keeps_last\<close>). (Row 2 is not written either: the loop over
  the even rows stops below \<open>matrix_size - 2\<close>.)
\<close>

theorem AssembleCoeffcientVector_last_row_unassigned:
  "AssembleTridiagonalMatrix 2
      [''e1'' \<mapsto> [1, 2, 3, 4], ''e2'' \<mapsto> [5, 6, 7, 8], ''e3'' \<mapsto> [9, 10, 11, 12],
       ''e4'' \<mapsto> [13, 14, 15, 16]]
      [''Surface Reflectivity'' \<mapsto> 1 / 2, ''source flux'' \<mapsto> 1]
      \<lparr>upper_diagonal = [9, 9, 9, 9], main_diagonal = [9, 9, 9, 9],
       lower_diagonal = [9, 9, 9, 9]\<rparr>
   = Inr \<lparr>upper_diagonal = [0, - 136, 9, 0], main_diagonal = [1, - 108, 9, 0],
          lower_diagonal = [- 5, 129, 9, - 2]\<rparr>
   \<and> AssembleCoeffcientVector front_elem 2
      [''e1'' \<mapsto> [1, 2, 3, 4], ''e2'' \<mapsto> [5, 6, 7, 8], ''e3'' \<mapsto> [9, 10, 11, 12],
       ''e4'' \<mapsto> [13, 14, 15, 16]]
      [''C_upwelling'' \<mapsto> [1, 3, 5, 7], ''C_downwelling'' \<mapsto> [2, 4, 6, 8]]
      [''Surface Reflectivity'' \<mapsto> 1 / 2, ''source flux'' \<mapsto> 1]
      [9, 9, 9, 9]
   = Inr [- 1, - 16, 9, 9]"
  by (simp add: assemble_defs)

text \<open>
  Row 0 on a system of at least two rows: whenever the two routines return, row 0 has main
  diagonal \<open>e1[0]\<close>, lower diagonal \<open>-e2[0]\<close>, upper diagonal 0, and right-hand side the
  incident flux (\<open>"source flux"\<close>) minus the downwelling source term of layer 0.
\<close>

lemma top_boundary_row_kept:
  assumes "AssembleTridiagonalMatrix number_of_layers sp solver m = Inr m'"
    and "AssembleCoeffcientVector start number_of_layers sp src solver b = Inr b'"
    and "2 \<le> length (upper_diagonal m)"
    and "2 \<le> length (main_diagonal m)"
    and "2 \<le> length (lower_diagonal m)"
  shows "\<exists>e1 e2 f_0 C_downwelling.
           sp ''e1'' = Some e1 \<and> sp ''e2'' = Some e2 \<and> solver ''source flux'' = Some f_0 \<and>
           src ''C_downwelling'' = Some C_downwelling \<and>
           e1 \<noteq> [] \<and> e2 \<noteq> [] \<and> C_downwelling \<noteq> [] \<and> b' \<noteq> [] \<and>
           main_diagonal m' ! 0 = e1 ! 0 \<and>
           lower_diagonal m' ! 0 = - (e2 ! 0) \<and>
           upper_diagonal m' ! 0 = 0 \<and>
           b' ! 0 = f_0 - C_downwelling ! 0"
proof -
  from AssembleTridiagonalMatrix_top [OF assms(1) assms(3-5)] obtain e1 e2 where
    "sp ''e1'' = Some e1" "sp ''e2'' = Some e2" "e1 \<noteq> []" "e2 \<noteq> []"
    "upper_diagonal m' ! 0 = 0" "main_diagonal m' ! 0 = e1 ! 0"
    "lower_diagonal m' ! 0 = - (e2 ! 0)"
    by blast
  moreover from AssembleCoeffcientVector_top [OF assms(2)] obtain f_0 cd where
    "solver ''source flux'' = Some f_0" "src ''C_downwelling'' = Some cd" "cd \<noteq> []"
    "b' \<noteq> []" "b' ! 0 = f_0 - cd ! 0"
    by blast
  ultimately show ?thesis by blast
qed

text \<open>
  Both routines return on a system of \<open>2 * N\<close> rows for \<open>N \<ge> 1\<close> layers, when the named
  parameters are present with \<open>2 * N\<close> entries each and \<open>start\<close> returns on the two
  source-term vectors.
\<close>

lemma stride_loop_total:
  assumes "P s"
    and "\<And>n t. n0 \<le> n \<Longrightarrow> n < bound \<Longrightarrow> P t \<Longrightarrow> \<exists>t'. body n t = Inr t' \<and> P t'"
  shows "\<exists>s'. stride_loop n0 bound body s = Inr s' \<and> P s'"
  using assms
proof (induction n0 bound body s rule: stride_loop.induct)
  case (1 n bound body s)
  show ?case
  proof (cases "n < bound")
    case False
    with "1.prems"(1) show ?thesis by (simp add: stride_loop.simps)
  next
    case True
    from "1.prems"(2) [OF le_refl True "1.prems"(1)] obtain t where
      t: "body n s = Inr t" "P t" by blast
    have "\<exists>s'. stride_loop (n + 2) bound body t = Inr s' \<and> P s'"
    proof (rule "1.IH" [OF True t(1) t(2)])
      fix k u
      assume "n + 2 \<le> k" "k < bound" "P u"
      then show "\<exists>t'. body k u = Inr t' \<and> P t'"
        using "1.prems"(2) [of k u] by simp
    qed
    then show ?thesis
      by (subst stride_loop.simps) (simp add: True t(1))
  qed
qed

lemma odd_row_total:
  assumes "n + 1 < length e1" "n + 1 < length e2" "n + 1 < length e3" "n + 1 < length e4"
    and "n < length (upper_diagonal m)" "n < length (main_diagonal m)"
    "n < length (lower_diagonal m)"
  shows "\<exists>m'. odd_row e1 e2 e3 e4 n m = Inr m' \<and> same_shape m m'"
  using assms by (simp add: odd_row_def and_then_def elem_def assign_def same_shape_def)

lemma even_row_total:
  assumes "n + 1 < length e1" "n + 1 < length e2" "n + 1 < length e3" "n + 1 < length e4"
    and "n < length (upper_diagonal m)" "n < length (main_diagonal m)"
    "n < length (lower_diagonal m)"
  shows "\<exists>m'. even_row e1 e2 e3 e4 n m = Inr m' \<and> same_shape m m'"
  using assms by (simp add: even_row_def and_then_def elem_def assign_def same_shape_def)

lemma first_row_total:
  assumes "e1 \<noteq> []" "e2 \<noteq> []" "upper_diagonal m \<noteq> []" "main_diagonal m \<noteq> []"
    "lower_diagonal m \<noteq> []"
  shows "\<exists>m'. first_row e1 e2 m = Inr m' \<and> same_shape m m'"
  using assms
  by (simp add: first_row_def and_then_def set_front_def front_elem_def elem_def assign_def
      same_shape_def)

lemma last_row_total:
  assumes "e1 \<noteq> []" "e2 \<noteq> []" "e3 \<noteq> []" "e4 \<noteq> []" "upper_diagonal m \<noteq> []"
    "main_diagonal m \<noteq> []" "lower_diagonal m \<noteq> []"
  shows "\<exists>m'. last_row e1 e2 e3 e4 R_sfc m = Inr m'"
  using assms
  by (simp add: last_row_def and_then_def set_back_def back_elem_def elem_def assign_def)

lemma AssembleTridiagonalMatrix_total:
  assumes keys: "sp ''e1'' = Some e1" "sp ''e2'' = Some e2" "sp ''e3'' = Some e3"
      "sp ''e4'' = Some e4" "solver ''Surface Reflectivity'' = Some R_sfc"
    and n: "1 \<le> number_of_layers" "2 * number_of_layers < 2 ^ 64"
    and e: "2 * number_of_layers \<le> length e1" "2 * number_of_layers \<le> length e2"
      "2 * number_of_layers \<le> length e3" "2 * number_of_layers \<le> length e4"
    and d: "length (upper_diagonal m) = 2 * number_of_layers"
      "length (main_diagonal m) = 2 * number_of_layers"
      "length (lower_diagonal m) = 2 * number_of_layers"
  shows "\<exists>m'. AssembleTridiagonalMatrix number_of_layers sp solver m = Inr m'"
proof -
  let ?N = "2 * number_of_layers"
  have ms: "size_t_mul 2 number_of_layers = ?N" using n(2) by (rule size_t_mul_small)
  have b1: "size_t_sub (size_t_mul 2 number_of_layers) 1 = ?N - 1"
    unfolding ms by (rule size_t_sub_small) (use n in simp_all)
  have b2: "size_t_sub (size_t_mul 2 number_of_layers) 2 = ?N - 2"
    unfolding ms by (rule size_t_sub_small) (use n in simp_all)
  have ne: "e1 \<noteq> []" "e2 \<noteq> []" "e3 \<noteq> []" "e4 \<noteq> []" using e n(1) by auto
  have nd: "upper_diagonal m \<noteq> []" "main_diagonal m \<noteq> []" "lower_diagonal m \<noteq> []"
    using d n(1) by auto
  from first_row_total [OF ne(1,2) nd] obtain m1 where
    r1: "first_row e1 e2 m = Inr m1" and s1: "same_shape m m1" by blast
  have "\<exists>m2. stride_loop 1 (?N - 1) (odd_row e1 e2 e3 e4) m1 = Inr m2 \<and> same_shape m m2"
  proof (rule stride_loop_total [where P = "same_shape m"])
    show "same_shape m m1" by (rule s1)
  next
    fix k t
    assume k: "k < ?N - 1" and t: "same_shape m t"
    from k e d t have "\<exists>t'. odd_row e1 e2 e3 e4 k t = Inr t' \<and> same_shape t t'"
      by (intro odd_row_total) (simp_all add: same_shape_def)
    with t show "\<exists>t'. odd_row e1 e2 e3 e4 k t = Inr t' \<and> same_shape m t'"
      by (blast intro: same_shape_trans)
  qed
  then obtain m2 where r2: "stride_loop 1 (?N - 1) (odd_row e1 e2 e3 e4) m1 = Inr m2"
    and s2: "same_shape m m2" by blast
  have "\<exists>m3. stride_loop 2 (?N - 2) (even_row e1 e2 e3 e4) m2 = Inr m3 \<and> same_shape m m3"
  proof (rule stride_loop_total [where P = "same_shape m"])
    show "same_shape m m2" by (rule s2)
  next
    fix k t
    assume k: "k < ?N - 2" and t: "same_shape m t"
    from k e d t have "\<exists>t'. even_row e1 e2 e3 e4 k t = Inr t' \<and> same_shape t t'"
      by (intro even_row_total) (simp_all add: same_shape_def)
    with t show "\<exists>t'. even_row e1 e2 e3 e4 k t = Inr t' \<and> same_shape m t'"
      by (blast intro: same_shape_trans)
  qed
  then obtain m3 where r3: "stride_loop 2 (?N - 2) (even_row e1 e2 e3 e4) m2 = Inr m3"
    and s3: "same_shape m m3" by blast
  have nd3: "upper_diagonal m3 \<noteq> []" "main_diagonal m3 \<noteq> []" "lower_diagonal m3 \<noteq> []"
    using s3 nd by (auto simp: same_shape_def)
  from last_row_total [OF ne nd3] obtain m' where
    r4: "last_row e1 e2 e3 e4 R_sfc m3 = Inr m'" by blast
  have "AssembleTridiagonalMatrix number_of_layers sp solver m = Inr m'"
    unfolding AssembleTridiagonalMatrix_def Let_def b1 b2
    by (simp only: and_then_def at_key_def keys option.case sum.case r1 r2 r3 r4)
  then show ?thesis by blast
qed

lemma rhs_odd_row_total:
  assumes "n < length e1" "n < length e3" "n < length cu" "n < length cd" "n < length v"
    and "start cu = Inr su" "start cd = Inr sd"
  shows "\<exists>v'. rhs_odd_row start e1 e3 cu cd n v = Inr v' \<and> length v' = length v"
  using assms by (simp add: rhs_odd_row_def and_then_def elem_def assign_def)

lemma rhs_even_row_total:
  assumes "n + 1 < length e2" "n + 1 < length e4" "n < length cu" "n < length cd" "n < length v"
    and "start cu = Inr su" "start cd = Inr sd"
  shows "\<exists>v'. rhs_even_row start e2 e4 cu cd n v = Inr v' \<and> length v' = length v"
  using assms by (simp add: rhs_even_row_def and_then_def elem_def assign_def)

lemma AssembleCoeffcientVector_total:
  assumes keys: "sp ''e1'' = Some e1" "sp ''e2'' = Some e2" "sp ''e3'' = Some e3"
      "sp ''e4'' = Some e4" "solver ''Surface Reflectivity'' = Some R_sfc"
      "solver ''source flux'' = Some f_0" "src ''C_upwelling'' = Some cu"
      "src ''C_downwelling'' = Some cd"
    and n: "1 \<le> number_of_layers" "2 * number_of_layers < 2 ^ 64"
    and e: "2 * number_of_layers \<le> length e1" "2 * number_of_layers \<le> length e2"
      "2 * number_of_layers \<le> length e3" "2 * number_of_layers \<le> length e4"
    and c: "2 * number_of_layers \<le> length cu" "2 * number_of_layers \<le> length cd"
    and b: "length b = 2 * number_of_layers"
    and st: "start cu = Inr su" "start cd = Inr sd"
  shows "\<exists>b'. AssembleCoeffcientVector start number_of_layers sp src solver b = Inr b'"
proof -
  let ?N = "2 * number_of_layers"
  have ms: "size_t_mul 2 number_of_layers = ?N" using n(2) by (rule size_t_mul_small)
  have b1: "size_t_sub (size_t_mul 2 number_of_layers) 1 = ?N - 1"
    unfolding ms by (rule size_t_sub_small) (use n in simp_all)
  have b2: "size_t_sub (size_t_mul 2 number_of_layers) 2 = ?N - 2"
    unfolding ms by (rule size_t_sub_small) (use n in simp_all)
  have "0 < length cd" using c(2) n(1) by linarith
  then have f: "front_elem cd = Inr (cd ! 0)" by (simp add: front_elem_def elem_def)
  have r1: "set_front b (f_0 - cd ! 0) = Inr (b[0 := f_0 - cd ! 0])"
    using b n(1) by (simp add: set_front_def assign_def)
  let ?P = "\<lambda>v :: vec. length v = ?N"
  have "\<exists>v2. stride_loop 1 (?N - 1) (rhs_odd_row start e1 e3 cu cd) (b[0 := f_0 - cd ! 0]) = Inr v2
          \<and> ?P v2"
  proof (rule stride_loop_total [where P = ?P])
    show "?P (b[0 := f_0 - cd ! 0])" using b by simp
  next
    fix k t
    assume k: "k < ?N - 1" and t: "?P t"
    from k e c t have "\<exists>t'. rhs_odd_row start e1 e3 cu cd k t = Inr t' \<and> length t' = length t"
      by (intro rhs_odd_row_total [OF _ _ _ _ _ st]) simp_all
    with t show "\<exists>t'. rhs_odd_row start e1 e3 cu cd k t = Inr t' \<and> ?P t'" by auto
  qed
  then obtain v2 where r2: "stride_loop 1 (?N - 1) (rhs_odd_row start e1 e3 cu cd)
      (b[0 := f_0 - cd ! 0]) = Inr v2" and p2: "?P v2" by blast
  have "\<exists>v3. stride_loop 2 (?N - 2) (rhs_even_row start e2 e4 cu cd) v2 = Inr v3 \<and> ?P v3"
  proof (rule stride_loop_total [where P = ?P])
    show "?P v2" by (rule p2)
  next
    fix k t
    assume k: "k < ?N - 2" and t: "?P t"
    from k e c t have "\<exists>t'. rhs_even_row start e2 e4 cu cd k t = Inr t' \<and> length t' = length t"
      by (intro rhs_even_row_total [OF _ _ _ _ _ st]) simp_all
    with t show "\<exists>t'. rhs_even_row start e2 e4 cu cd k t = Inr t' \<and> ?P t'" by auto
  qed
  then obtain v3 where r3: "stride_loop 2 (?N - 2) (rhs_even_row start e2 e4 cu cd) v2 = Inr v3"
    by blast
  have "AssembleCoeffcientVector start number_of_layers sp src solver b = Inr v3"
    unfolding AssembleCoeffcientVector_def Let_def b1 b2
    by (simp only: and_then_def at_key_def keys option.case sum.case f r1 r2 r3)
  then show ?thesis by blast
qed

text \<open>
  Hence on every system sized as the data model asks, \<open>2 * N\<close> rows for \<open>N \<ge> 1\<close> layers,
  the two routines return and row 0 is the top boundary row.
\<close>

lemma top_boundary_row_total:
  assumes keys: "sp ''e1'' = Some e1" "sp ''e2'' = Some e2" "sp ''e3'' = Some e3"
      "sp ''e4'' = Some e4" "solver ''Surface Reflectivity'' = Some R_sfc"
      "solver ''source flux'' = Some f_0" "src ''C_upwelling'' = Some cu"
      "src ''C_downwelling'' = Some cd"
    and n: "1 \<le> number_of_layers" "2 * number_of_layers < 2 ^ 64"
    and e: "2 * number_of_layers \<le> length e1" "2 * number_of_layers \<le> length e2"
      "2 * number_of_layers \<le> length e3" "2 * number_of_layers \<le> length e4"
    and c: "2 * number_of_layers \<le> length cu" "2 * number_of_layers \<le> length cd"
    and d: "length (upper_diagonal m) = 2 * number_of_layers"
      "length (main_diagonal m) = 2 * number_of_layers"
      "length (lower_diagonal m) = 2 * number_of_layers"
    and b: "length b = 2 * number_of_layers"
    and st: "start cu = Inr su" "start cd = Inr sd"
  shows "\<exists>m' b'.
           AssembleTridiagonalMatrix number_of_layers sp solver m = Inr m' \<and>
           AssembleCoeffcientVector start number_of_layers sp src solver b = Inr b' \<and>
           main_diagonal m' ! 0 = e1 ! 0 \<and>
           lower_diagonal m' ! 0 = - (e2 ! 0) \<and>
           upper_diagonal m' ! 0 = 0 \<and>
           b' ! 0 = f_0 - cd ! 0"
proof -
  from AssembleTridiagonalMatrix_total [where sp = sp and solver = solver, OF keys(1-5) n e d]
  obtain m' where
    rm: "AssembleTridiagonalMatrix number_of_layers sp solver m = Inr m'" by blast
  from AssembleCoeffcientVector_total
    [where sp = sp and solver = solver and src = src, OF keys n e c b st]
  obtain b' where
    rb: "AssembleCoeffcientVector start number_of_layers sp src solver b = Inr b'" by blast
  have two: "2 \<le> length (upper_diagonal m)" "2 \<le> length (main_diagonal m)"
    "2 \<le> length (lower_diagonal m)"
    using d n(1) by simp_all
  from top_boundary_row_kept [OF rm rb two] keys
  have "main_diagonal m' ! 0 = e1 ! 0 \<and> lower_diagonal m' ! 0 = - (e2 ! 0) \<and>
        upper_diagonal m' ! 0 = 0 \<and> b' ! 0 = f_0 - cd ! 0"
    by auto
  with rm rb show ?thesis by blast
qed

text \<open>Two layers, four rows: the hypotheses hold, and row 0 is the top boundary row.\<close>

lemma top_boundary_row_total_example:
  "\<exists>m' b'.
     AssembleTridiagonalMatrix 2
       [''e1'' \<mapsto> [1, 2, 3, 4], ''e2'' \<mapsto> [5, 6, 7, 8], ''e3'' \<mapsto> [9, 10, 11, 12],
        ''e4'' \<mapsto> [13, 14, 15, 16]]
       [''Surface Reflectivity'' \<mapsto> 1 / 2, ''source flux'' \<mapsto> 1]
       \<lparr>upper_diagonal = [0, 0, 0, 0], main_diagonal = [0, 0, 0, 0],
        lower_diagonal = [0, 0, 0, 0]\<rparr> = Inr m' \<and>
     AssembleCoeffcientVector front_elem 2
       [''e1'' \<mapsto> [1, 2, 3, 4], ''e2'' \<mapsto> [5, 6, 7, 8], ''e3'' \<mapsto> [9, 10, 11, 12],
        ''e4'' \<mapsto> [13, 14, 15, 16]]
       [''C_upwelling'' \<mapsto> [1, 3, 5, 7], ''C_downwelling'' \<mapsto> [2, 4, 6, 8]]
       [''Surface Reflectivity'' \<mapsto> 1 / 2, ''source flux'' \<mapsto> 1]
       [0, 0, 0, 0] = Inr b' \<and>
     main_diagonal m' ! 0 = [1, 2, 3, 4] ! 0 \<and>
     lower_diagonal m' ! 0 = - ([5, 6, 7, 8] ! 0) \<and>
     upper_diagonal m' ! 0 = 0 \<and>
     b' ! 0 = 1 - [2, 4, 6, 8] ! 0"
  by (rule top_boundary_row_total
        [where ?e3.0 = "[9, 10, 11, 12]" and ?e4.0 = "[13, 14, 15, 16]" and R_sfc = "1 / 2"
           and cu = "[1, 3, 5, 7]" and su = 1 and sd = 2])
    (simp_all add: front_elem_def elem_def)


end
